theory Spec2Isabelle
  imports Main
begin

section \<open>Python values and the operations the notebooks apply to them\<close>

text \<open>
  The two notebooks (\<^verbatim>\<open>Practical 7 Interactive Maps.ipynb\<close> and the GeoPandas
  introduction) are sequences of code cells.  The values the notebook code itself
  inspects are GeoJSON features, that is JSON values after \<^verbatim>\<open>json.loads\<close>, and plain
  Python lists, tuples and dicts.  A float is kept as the literal that denotes it: the
  notebook code never computes with one.
\<close>

datatype pyval =
    PNone
  | PBool bool
  | PInt int
  | PFlt string
  | PStr string
  | PList "pyval list"
  | PTuple "pyval list"
  | PDict "(string \<times> pyval) list"

text \<open>
  The exceptions of Python that occur here.  \<open>Unmodelled\<close> is not one of them: it
  stands for an outcome this development does not determine.
\<close>

datatype error = KeyError | IndexError | TypeError | ValueError | OverflowError | Unmodelled

text \<open>
  \<^verbatim>\<open>x[k]\<close> for a string literal \<^verbatim>\<open>k\<close>: a dict looks the key up and raises KeyError when
  it is absent; every other value of the model raises TypeError (lists, tuples and
  strings want integer indices, the others are not subscriptable).
\<close>

fun subscript_str :: "pyval \<Rightarrow> string \<Rightarrow> error + pyval" where
  "subscript_str (PDict kvs) k = (case map_of kvs k of Some v \<Rightarrow> Inr v | None \<Rightarrow> Inl KeyError)"
| "subscript_str _ k = Inl TypeError"

text \<open>
  \<^verbatim>\<open>xs[i]\<close> for a list and an integer: an index below zero counts from the end, and an
  index outside \<open>-len \<dots> len - 1\<close> raises IndexError.
\<close>

definition list_index :: "'a list \<Rightarrow> int \<Rightarrow> error + 'a" where
  "list_index xs i =
     (if 0 \<le> i \<and> i < int (length xs) then Inr (xs ! nat i)
      else if - int (length xs) \<le> i \<and> i < 0 then Inr (xs ! nat (int (length xs) + i))
      else Inl IndexError)"

section \<open>The choropleth styling cell of Practical 7\<close>

text \<open>
  \<^verbatim>\<open>
  colors = ['#a6cee3','#1f78b4','#b2df8a','#33a02c','#fb9a99',
            '#e31a1c','#fdbf6f','#ff7f00','#cab2d6','#6a3d9a']

  def style_function(feature):
      return {
          'fillOpacity': 0.7,
          'weight': 0,
          'color':'black',
          'fillColor': colors[int(feature['properties']['imd_decile'])-1]
      }
  \<close>
\<close>

definition colors :: "string list" where
  "colors = [''#a6cee3'', ''#1f78b4'', ''#b2df8a'', ''#33a02c'', ''#fb9a99'',
             ''#e31a1c'', ''#fdbf6f'', ''#ff7f00'', ''#cab2d6'', ''#6a3d9a'']"

text \<open>
  The builtin \<^verbatim>\<open>int\<close> is not code of the notebooks: \<open>style_function\<close> takes it as the
  parameter \<open>to_int\<close>, which returns the integer or the exception \<^verbatim>\<open>int\<close> raises.
  The dict display evaluates its entries in order; only the last one can raise.
\<close>

definition style_function :: "(pyval \<Rightarrow> error + int) \<Rightarrow> pyval \<Rightarrow> error + pyval" where
  "style_function to_int feature =
     (case subscript_str feature ''properties'' of
        Inl e \<Rightarrow> Inl e
      | Inr props \<Rightarrow>
         (case subscript_str props ''imd_decile'' of
            Inl e \<Rightarrow> Inl e
          | Inr v \<Rightarrow>
             (case to_int v of
                Inl e \<Rightarrow> Inl e
              | Inr d \<Rightarrow>
                 (case list_index colors (d - 1) of
                    Inl e \<Rightarrow> Inl e
                  | Inr c \<Rightarrow>
                     Inr (PDict [(''fillOpacity'', PFlt ''0.7''),
                                 (''weight'', PInt 0),
                                 (''color'', PStr ''black''),
                                 (''fillColor'', PStr c)])))))"

text \<open>
  \<^verbatim>\<open>int(x)\<close> on the values a decile takes in the feature collection: an integer (and a
  bool, which is an integer) is returned as it is, \<^verbatim>\<open>None\<close> and the containers raise
  TypeError.  What \<^verbatim>\<open>int\<close> does with a string or a float depends on Python's number
  parsing and on the float's binary value, which are not modelled: for these two the
  answer is \<open>Unmodelled\<close>.  The theorems about \<open>style_function\<close> hold for every
  \<open>to_int\<close>; this conversion serves the examples, which apply it to integers.
\<close>

fun int_of_number :: "pyval \<Rightarrow> error + int" where
  "int_of_number (PInt i) = Inr i"
| "int_of_number (PBool b) = Inr (if b then 1 else 0)"
| "int_of_number (PStr s) = Inl Unmodelled"
| "int_of_number (PFlt s) = Inl Unmodelled"
| "int_of_number _ = Inl TypeError"

text \<open>A feature whose \<^verbatim>\<open>imd_decile\<close> property is the JSON value \<open>v\<close>.\<close>

definition lsoa_feature :: "pyval \<Rightarrow> pyval" where
  "lsoa_feature v =
     PDict [(''type'', PStr ''Feature''),
            (''properties'', PDict [(''lsoa'', PStr ''E01017136''), (''imd_decile'', v)])]"

section \<open>The statements of the notebooks\<close>

text \<open>
  The code cells are kept as they are written: expressions and statements of the
  Python fragment the two notebooks use.  \<open>Call f args kws\<close> is a call with its
  positional and keyword arguments, \<open>DictE ks vs\<close> a dict display with its keys and
  values, \<open>ListComp e ts it\<close> the comprehension \<^verbatim>\<open>[e for ts in it]\<close>, \<open>Flt\<close> a float
  literal as written.  The statements \<open>ClassDef\<close>, \<open>Try\<close> (body and handlers) and
  \<open>Raise\<close> belong to the fragment although no cell uses them.
\<close>

datatype expr =
    Name string
  | Str string
  | Num int
  | Flt string
  | BoolC bool
  | Neg expr
  | Attr expr string
  | Call expr "expr list" "keyword list"
  | Subscript expr expr
  | Slice expr expr
  | Minus expr expr
  | Eq expr expr
  | ListE "expr list"
  | TupleE "expr list"
  | DictE "expr list" "expr list"
  | ListComp expr "string list" expr
and keyword = Keyword string expr

datatype stmt =
    Import string string
  | FromImport string "string list"
  | Assign string expr
  | ExprStmt expr
  | For "string list" expr "stmt list"
  | FunDef string "string list" "stmt list"
  | Return expr
  | ClassDef string "stmt list"
  | Try "stmt list" "stmt list"
  | Raise expr

text \<open>The calls inside an expression, outermost first.\<close>

fun calls :: "expr \<Rightarrow> expr list"
  and kw_calls :: "keyword \<Rightarrow> expr list" where
  "calls (Name n) = []"
| "calls (Str s) = []"
| "calls (Num i) = []"
| "calls (Flt s) = []"
| "calls (BoolC b) = []"
| "calls (Neg e) = calls e"
| "calls (Attr e a) = calls e"
| "calls (Call f args kws) =
     Call f args kws # calls f @ concat (map calls args) @ concat (map kw_calls kws)"
| "calls (Subscript e i) = calls e @ calls i"
| "calls (Slice l u) = calls l @ calls u"
| "calls (Minus a b) = calls a @ calls b"
| "calls (Eq a b) = calls a @ calls b"
| "calls (ListE es) = concat (map calls es)"
| "calls (TupleE es) = concat (map calls es)"
| "calls (DictE ks vs) = concat (map calls ks) @ concat (map calls vs)"
| "calls (ListComp e ts it) = calls e @ calls it"
| "kw_calls (Keyword k e) = calls e"

text \<open>A statement with the statements nested in it, and the expressions it evaluates itself.\<close>

fun substmts :: "stmt \<Rightarrow> stmt list" where
  "substmts (For ts it body) = For ts it body # concat (map substmts body)"
| "substmts (FunDef f ps body) = FunDef f ps body # concat (map substmts body)"
| "substmts (ClassDef c body) = ClassDef c body # concat (map substmts body)"
| "substmts (Try body hs) = Try body hs # concat (map substmts body) @ concat (map substmts hs)"
| "substmts s = [s]"

fun stmt_exprs :: "stmt \<Rightarrow> expr list" where
  "stmt_exprs (Assign t e) = [e]"
| "stmt_exprs (ExprStmt e) = [e]"
| "stmt_exprs (For ts it body) = [it]"
| "stmt_exprs (Return e) = [e]"
| "stmt_exprs (Raise e) = [e]"
| "stmt_exprs _ = []"

text \<open>A notebook is the list of its code cells, read from top to bottom.\<close>

definition cell_stmts :: "stmt list list \<Rightarrow> stmt list" where
  "cell_stmts nb = concat (map substmts (concat nb))"

definition all_calls :: "stmt list list \<Rightarrow> expr list" where
  "all_calls nb = concat (map calls (concat (map stmt_exprs (cell_stmts nb))))"

fun callee :: "expr \<Rightarrow> expr" where
  "callee (Call f args kws) = f"
| "callee e = e"

fun last_name :: "expr \<Rightarrow> string" where
  "last_name (Name n) = n"
| "last_name (Attr e a) = a"
| "last_name e = []"

definition callee_names :: "stmt list list \<Rightarrow> string list" where
  "callee_names nb = remdups (map (last_name \<circ> callee) (all_calls nb))"

text \<open>
  The import statements bind aliases to modules and to members of modules; a dotted
  name that starts at an alias is the library name it stands for.
\<close>

fun imported :: "stmt \<Rightarrow> (string \<times> string) list" where
  "imported (Import m a) = [(a, m)]"
| "imported (FromImport m ns) = map (\<lambda>n. (n, m @ ''.'' @ n)) ns"
| "imported s = []"

definition import_table :: "stmt list list \<Rightarrow> (string \<times> string) list" where
  "import_table nb = concat (map imported (cell_stmts nb))"

fun qualify :: "(string \<times> string) list \<Rightarrow> expr \<Rightarrow> string option" where
  "qualify imps (Name n) = map_of imps n"
| "qualify imps (Attr e a) = map_option (\<lambda>m. m @ ''.'' @ a) (qualify imps e)"
| "qualify imps e = None"

definition library_callee :: "stmt list list \<Rightarrow> expr \<Rightarrow> string option" where
  "library_callee nb c = qualify (import_table nb) (callee c)"

subsection \<open>Files read and written\<close>

text \<open>
  Library routines that read a file or write one are recognised by name: the readers
  and writers of pandas, geopandas, numpy, matplotlib and folium, and the builtin
  \<^verbatim>\<open>open\<close>.
\<close>

definition reader_names :: "string list" where
  "reader_names =
     [''read_file'', ''read_csv'', ''read_table'', ''read_excel'', ''read_json'',
      ''read_pickle'', ''read_parquet'', ''read_feather'', ''read_postgis'', ''read_sql'',
      ''read_html'', ''open'', ''load'', ''loadtxt'', ''genfromtxt'', ''from_file'']"


definition file_reads :: "stmt list list \<Rightarrow> expr list" where
  "file_reads nb = filter (\<lambda>c. last_name (callee c) \<in> set reader_names) (all_calls nb)"


definition starts_with :: "string \<Rightarrow> string \<Rightarrow> bool" where
  "starts_with pre s = (take (length pre) s = pre)"

definition ends_with :: "string \<Rightarrow> string \<Rightarrow> bool" where
  "ends_with suf s = (length suf \<le> length s \<and> drop (length s - length suf) s = suf)"

fun str_arg :: "expr \<Rightarrow> string" where
  "str_arg (Call f (Str p # args) kws) = p"
| "str_arg e = []"

text \<open>
  The three input formats, told by the path: a zip archive opened through the
  \<^verbatim>\<open>zip://\<close> scheme (the zipped shapefile), a GeoPackage, a CSV file.
\<close>

definition zipped_shapefile :: "string \<Rightarrow> bool" where
  "zipped_shapefile p = (starts_with ''zip://'' p \<and> ends_with ''.zip'' p)"

definition geopackage :: "string \<Rightarrow> bool" where
  "geopackage p = ends_with ''.gpkg'' p"

definition csv_file :: "string \<Rightarrow> bool" where
  "csv_file p = ends_with ''.csv'' p"

text \<open>
  What the specification says of an input file: one of the three formats, read by
  \<^verbatim>\<open>geopandas.read_file\<close>.
\<close>

definition read_by_vector_reader :: "stmt list list \<Rightarrow> expr \<Rightarrow> bool" where
  "read_by_vector_reader nb c =
     (library_callee nb c = Some ''geopandas.read_file'' \<and>
      (zipped_shapefile (str_arg c) \<or> geopackage (str_arg c) \<or> csv_file (str_arg c)))"

text \<open>
  What the notebooks do: the vector formats go through \<^verbatim>\<open>geopandas.read_file\<close>, a CSV
  file goes through \<^verbatim>\<open>pandas.read_csv\<close>.
\<close>

definition read_by_format :: "stmt list list \<Rightarrow> expr \<Rightarrow> bool" where
  "read_by_format nb c =
     ((library_callee nb c = Some ''geopandas.read_file'' \<and>
       (zipped_shapefile (str_arg c) \<or> geopackage (str_arg c))) \<or>
      (library_callee nb c = Some ''pandas.read_csv'' \<and> csv_file (str_arg c)))"

text \<open>The expression last assigned to a name by the top-level statements of a notebook.\<close>

fun assigned :: "string \<Rightarrow> stmt \<Rightarrow> expr list" where
  "assigned x (Assign t e) = (if t = x then [e] else [])"
| "assigned x s = []"

definition last_assigned :: "stmt list list \<Rightarrow> string \<Rightarrow> expr option" where
  "last_assigned nb x =
     (case rev (concat (map (assigned x) (concat nb))) of [] \<Rightarrow> None | e # es \<Rightarrow> Some e)"

subsection \<open>Where a called function and a bound value come from\<close>

text \<open>
  Reading a notebook from top to bottom, \<open>lib\<close> holds the names that stand for a
  library or for a value obtained from one (an import alias, a name assigned from an
  expression that starts at such a name, the targets of a loop over such a value) and
  \<open>defs\<close> the functions and classes the notebook defines itself.  The root of an
  expression is the name its chain of attributes, calls and subscripts starts at.
\<close>

fun root :: "expr \<Rightarrow> string option" where
  "root (Name n) = Some n"
| "root (Attr e a) = root e"
| "root (Call f args kws) = root f"
| "root (Subscript e i) = root e"
| "root e = None"

record env =
  lib :: "string list"
  defs :: "string list"

definition builtin_names :: "string list" where
  "builtin_names =
     [''int'', ''float'', ''str'', ''bool'', ''list'', ''tuple'', ''dict'', ''set'', ''zip'',
      ''len'', ''type'', ''print'', ''range'', ''enumerate'', ''sorted'', ''sum'', ''min'',
      ''max'', ''map'', ''filter'', ''open'']"

datatype origin = Library | Builtin | Defined | Unknown

definition from_library :: "env \<Rightarrow> expr \<Rightarrow> bool" where
  "from_library en e = (case root e of None \<Rightarrow> False | Some r \<Rightarrow> r \<in> set (lib en))"

definition call_origin :: "env \<Rightarrow> expr \<Rightarrow> origin" where
  "call_origin en c =
     (case root (callee c) of
        None \<Rightarrow> Unknown
      | Some r \<Rightarrow>
          if r \<in> set (lib en) then Library
          else if r \<in> set (defs en) then Defined
          else if callee c = Name r \<and> r \<in> set builtin_names then Builtin
          else Unknown)"

datatype kind = LibraryObject | PyList | PyTuple | PyDict | PyScalar | UnknownKind

text \<open>
  The kind of value an expression builds when it does not come from a library: a
  display or a literal, or the result of the builtins \<^verbatim>\<open>list\<close>, \<^verbatim>\<open>tuple\<close>, \<^verbatim>\<open>dict\<close>.
  The trace notes this coarse kind at each assignment only; every value and every
  binder is sorted in full further below.
\<close>

fun display_kind :: "expr \<Rightarrow> kind" where
  "display_kind (ListE es) = PyList"
| "display_kind (ListComp e ts it) = PyList"
| "display_kind (TupleE es) = PyTuple"
| "display_kind (DictE ks vs) = PyDict"
| "display_kind (Str s) = PyScalar"
| "display_kind (Num i) = PyScalar"
| "display_kind (Flt s) = PyScalar"
| "display_kind (BoolC b) = PyScalar"
| "display_kind e = UnknownKind"

definition builtin_kind :: "string \<Rightarrow> kind" where
  "builtin_kind n =
     (if n = ''list'' then PyList
      else if n = ''tuple'' then PyTuple
      else if n = ''dict'' then PyDict
      else if n \<in> set [''int'', ''float'', ''str'', ''bool'', ''len''] then PyScalar
      else UnknownKind)"

definition value_kind :: "env \<Rightarrow> expr \<Rightarrow> kind" where
  "value_kind en e =
     (if from_library en e then LibraryObject
      else if call_origin en e = Builtin then builtin_kind (last_name (callee e))
      else display_kind e)"

datatype event =
    Called expr origin
  | Bound string kind
  | DefinedFun string
  | DefinedClass string

definition called :: "env \<Rightarrow> expr list \<Rightarrow> event list" where
  "called en es = map (\<lambda>c. Called c (call_origin en c)) (concat (map calls es))"

definition bind_names :: "bool \<Rightarrow> string list \<Rightarrow> env \<Rightarrow> env" where
  "bind_names from_lib ns en =
     \<lparr>lib = (if from_lib then ns @ lib en else filter (\<lambda>n. n \<notin> set ns) (lib en)),
      defs = filter (\<lambda>n. n \<notin> set ns) (defs en)\<rparr>"

definition define_name :: "string \<Rightarrow> env \<Rightarrow> env" where
  "define_name f en = \<lparr>lib = filter (\<lambda>n. n \<noteq> f) (lib en), defs = f # defs en\<rparr>"

fun trace_stmt :: "env \<Rightarrow> stmt \<Rightarrow> env \<times> event list"
  and trace_stmts :: "env \<Rightarrow> stmt list \<Rightarrow> env \<times> event list" where
  "trace_stmt en (Import m a) = (bind_names True [a] en, [])"
| "trace_stmt en (FromImport m ns) = (bind_names True ns en, [])"
| "trace_stmt en (Assign t e) =
     (bind_names (from_library en e) [t] en, called en [e] @ [Bound t (value_kind en e)])"
| "trace_stmt en (ExprStmt e) = (en, called en [e])"
| "trace_stmt en (For ts it body) =
     (case trace_stmts (bind_names (from_library en it) ts en) body of
        (en', evs) \<Rightarrow> (en', called en [it] @ evs))"
| "trace_stmt en (FunDef f ps body) =
     (define_name f en, DefinedFun f # snd (trace_stmts (bind_names False ps en) body))"
| "trace_stmt en (Return e) = (en, called en [e])"
| "trace_stmt en (ClassDef c body) =
     (define_name c en, DefinedClass c # snd (trace_stmts en body))"
| "trace_stmt en (Try body hs) =
     (case trace_stmts en body of
        (en', evs) \<Rightarrow> (case trace_stmts en' hs of (en'', evs') \<Rightarrow> (en'', evs @ evs')))"
| "trace_stmt en (Raise e) = (en, called en [e])"
| "trace_stmts en [] = (en, [])"
| "trace_stmts en (s # ss) =
     (case trace_stmt en s of
        (en', evs) \<Rightarrow> (case trace_stmts en' ss of (en'', evs') \<Rightarrow> (en'', evs @ evs')))"

definition trace :: "stmt list list \<Rightarrow> event list" where
  "trace nb = snd (trace_stmts \<lparr>lib = [], defs = []\<rparr> (concat nb))"

fun event_origin :: "event \<Rightarrow> origin list" where
  "event_origin (Called c k) = [k]"
| "event_origin ev = []"

definition call_origins :: "stmt list list \<Rightarrow> origin list" where
  "call_origins nb = remdups (concat (map event_origin (trace nb)))"

fun called_name :: "origin \<Rightarrow> event \<Rightarrow> string list" where
  "called_name k (Called c k') = (if k = k' then [last_name (callee c)] else [])"
| "called_name k ev = []"

definition calls_of :: "origin \<Rightarrow> stmt list list \<Rightarrow> string list" where
  "calls_of k nb = remdups (concat (map (called_name k) (trace nb)))"

definition library_callees :: "stmt list list \<Rightarrow> string list" where
  "library_callees nb = remdups (concat (map (\<lambda>c. case library_callee nb c of None \<Rightarrow> [] | Some q \<Rightarrow> [q]) (all_calls nb)))"

subsection \<open>Function definitions and exception handling\<close>

fun defined_name :: "stmt \<Rightarrow> string" where
  "defined_name (FunDef f ps body) = f"
| "defined_name (ClassDef c body) = c"
| "defined_name s = []"

fun is_fundef :: "stmt \<Rightarrow> bool" where
  "is_fundef (FunDef f ps body) = True"
| "is_fundef s = False"

definition fundefs :: "stmt list list \<Rightarrow> stmt list" where
  "fundefs nb = filter is_fundef (cell_stmts nb)"

text \<open>
  A function delegates directly when its body is one statement, and that statement
  returns or evaluates a call.
\<close>

fun direct_delegation :: "stmt \<Rightarrow> bool" where
  "direct_delegation (FunDef f ps [Return (Call g args kws)]) = True"
| "direct_delegation (FunDef f ps [ExprStmt (Call g args kws)]) = True"
| "direct_delegation s = False"

text \<open>
  The calls that are handed the name \<open>n\<close> as a keyword argument, each with the library
  name of its callee and the keyword.
\<close>

fun keyword_args :: "expr \<Rightarrow> keyword list" where
  "keyword_args (Call f args kws) = kws"
| "keyword_args e = []"

fun keyword_name :: "keyword \<Rightarrow> string" where
  "keyword_name (Keyword k e) = k"

fun passes :: "string \<Rightarrow> keyword \<Rightarrow> bool" where
  "passes n (Keyword k e) = (e = Name n)"

definition handed_to :: "string \<Rightarrow> stmt list list \<Rightarrow> (string option \<times> string) list" where
  "handed_to n nb =
     concat (map (\<lambda>c. map (\<lambda>kw. (library_callee nb c, keyword_name kw))
                         (filter (passes n) (keyword_args c)))
                 (all_calls nb))"

fun handles_or_raises :: "stmt \<Rightarrow> bool" where
  "handles_or_raises (Try body hs) = True"
| "handles_or_raises (Raise e) = True"
| "handles_or_raises s = False"

subsection \<open>The calls a cell evaluates when it runs\<close>

text \<open>
  The calls a notebook evaluates exactly once when its cells run from top to bottom:
  those in the expressions of the top-level statements.  The body of a loop and the
  element expression of a comprehension run once for each item, the body of a function
  runs when the function is called; none of them is counted here.
\<close>

fun calls_once :: "expr \<Rightarrow> expr list"
  and kw_calls_once :: "keyword \<Rightarrow> expr list" where
  "calls_once (Name n) = []"
| "calls_once (Str s) = []"
| "calls_once (Num i) = []"
| "calls_once (Flt s) = []"
| "calls_once (BoolC b) = []"
| "calls_once (Neg e) = calls_once e"
| "calls_once (Attr e a) = calls_once e"
| "calls_once (Call f args kws) =
     Call f args kws # calls_once f @ concat (map calls_once args)
       @ concat (map kw_calls_once kws)"
| "calls_once (Subscript e i) = calls_once e @ calls_once i"
| "calls_once (Slice l u) = calls_once l @ calls_once u"
| "calls_once (Minus a b) = calls_once a @ calls_once b"
| "calls_once (Eq a b) = calls_once a @ calls_once b"
| "calls_once (ListE es) = concat (map calls_once es)"
| "calls_once (TupleE es) = concat (map calls_once es)"
| "calls_once (DictE ks vs) = concat (map calls_once ks) @ concat (map calls_once vs)"
| "calls_once (ListComp e ts it) = calls_once it"
| "kw_calls_once (Keyword k e) = calls_once e"




subsection \<open>Concurrency and callbacks\<close>






text \<open>
  A callback is a function of the notebook handed to a call as an argument, positional
  or keyword: each is listed with the library name of the callee that receives it.
\<close>

fun keyword_value :: "keyword \<Rightarrow> expr" where
  "keyword_value (Keyword k e) = e"

fun arguments :: "expr \<Rightarrow> expr list" where
  "arguments (Call f args kws) = args @ map keyword_value kws"
| "arguments e = []"

definition defined_names :: "stmt list list \<Rightarrow> string list" where
  "defined_names nb = map defined_name (fundefs nb)"

definition callbacks :: "stmt list list \<Rightarrow> (string option \<times> expr) list" where
  "callbacks nb =
     concat (map (\<lambda>c. map (\<lambda>a. (library_callee nb c, a))
                         (filter (\<lambda>a. a \<in> set (map Name (defined_names nb))) (arguments c)))
                 (all_calls nb))"

text \<open>
  The statements of the bodies of the notebook's functions, and what they do to state
  outside the function: a statement that is not a \<^verbatim>\<open>return\<close> (an assignment, a loop, a
  nested definition), and the calls the bodies make.
\<close>

fun body :: "stmt \<Rightarrow> stmt list" where
  "body (FunDef f ps ss) = concat (map substmts ss)"
| "body s = []"




subsection \<open>The kind of every value and of every bound name\<close>

text \<open>
  Every expression of a notebook evaluates to a value and every binder gives a value a
  name.  Each of them is sorted by where the value comes from:
  \<^item> \<open>FromLibrary\<close>: a library module, class or function, or a value a library hands
    over (the result of a library call, an attribute or an item of such a value, an
    item of a loop over one); what it is, a table, a geometry, a map, a row, a label
    or a coordinate, is the library's business;
  \<^item> \<open>FromCaller\<close>: a parameter of a function of the notebook, or a part of one;
  \<^item> \<open>Scalar\<close>: a string, number or truth value the notebook code writes or computes;
  \<^item> \<open>ListOf\<close>, \<open>TupleOf\<close>, \<open>DictOf\<close>, \<open>IteratorOf\<close>: a plain Python list, tuple,
    dict or iterator the notebook code builds, with the kind of its items (of its
    values, for a dict); \<open>Mixed\<close> stands for items of no single kind;
  \<^item> \<open>BuiltinObject\<close>: a builtin function or type, a slice, \<^verbatim>\<open>None\<close>;
  \<^item> \<open>FunctionObject\<close>, \<open>ClassObject\<close>, \<open>InstanceObject\<close>: a function or a class the
    notebook defines, and what a call of such a class builds;
  \<^item> \<open>Unclassified\<close>: none of these can be told.
\<close>

datatype vkind =
    FromLibrary
  | FromCaller
  | Scalar
  | ListOf vkind
  | TupleOf vkind
  | DictOf vkind
  | IteratorOf vkind
  | Mixed
  | BuiltinObject
  | FunctionObject
  | ClassObject
  | InstanceObject
  | Unclassified

type_synonym kinds = "(string \<times> vkind) list"

text \<open>The single kind of the items of a display, and a container of items of that kind.\<close>

definition join :: "vkind list \<Rightarrow> vkind" where
  "join ks =
     (if Unclassified \<in> set ks then Unclassified
      else case remdups ks of [k] \<Rightarrow> k | other \<Rightarrow> Mixed)"

definition container :: "(vkind \<Rightarrow> vkind) \<Rightarrow> vkind \<Rightarrow> vkind" where
  "container c k = (if k = Unclassified then Unclassified else c k)"

text \<open>
  The kind of an item of a value (what a loop or an unpacking takes out of it), of an
  attribute, of a subscript (a slice keeps the container), of a unary or binary
  operation: an operation on a library value is the library's.
\<close>

fun item_of :: "vkind \<Rightarrow> vkind" where
  "item_of FromLibrary = FromLibrary"
| "item_of FromCaller = FromCaller"
| "item_of (ListOf k) = (if k = Mixed then Unclassified else k)"
| "item_of (TupleOf k) = (if k = Mixed then Unclassified else k)"
| "item_of (IteratorOf k) = (if k = Mixed then Unclassified else k)"
| "item_of k = Unclassified"

fun attribute_of :: "vkind \<Rightarrow> vkind" where
  "attribute_of FromLibrary = FromLibrary"
| "attribute_of FromCaller = FromCaller"
| "attribute_of k = Unclassified"

fun is_slice :: "expr \<Rightarrow> bool" where
  "is_slice (Slice l u) = True"
| "is_slice e = False"

fun subscript_of :: "vkind \<Rightarrow> bool \<Rightarrow> vkind" where
  "subscript_of FromLibrary sl = FromLibrary"
| "subscript_of FromCaller sl = FromCaller"
| "subscript_of (ListOf k) sl = (if sl then ListOf k else if k = Mixed then Unclassified else k)"
| "subscript_of (TupleOf k) sl = (if sl then TupleOf k else if k = Mixed then Unclassified else k)"
| "subscript_of (DictOf k) sl = (if sl \<or> k = Mixed then Unclassified else k)"
| "subscript_of k sl = Unclassified"

fun negation_of :: "vkind \<Rightarrow> vkind" where
  "negation_of FromLibrary = FromLibrary"
| "negation_of FromCaller = FromCaller"
| "negation_of Scalar = Scalar"
| "negation_of k = Unclassified"

definition binary_of :: "vkind \<Rightarrow> vkind \<Rightarrow> vkind" where
  "binary_of a b =
     (if a = Unclassified \<or> b = Unclassified then Unclassified
      else if a = FromLibrary \<or> b = FromLibrary then FromLibrary
      else if a = FromCaller \<or> b = FromCaller then FromCaller
      else if a = Scalar \<and> b = Scalar then Scalar
      else Unclassified)"

text \<open>What a builtin returns, from the kinds of its arguments.\<close>

definition builtin_result :: "string \<Rightarrow> vkind list \<Rightarrow> vkind" where
  "builtin_result n ks =
     (if Unclassified \<in> set ks then Unclassified
      else if n = ''list'' then container ListOf (case ks of [] \<Rightarrow> Mixed | k # r \<Rightarrow> item_of k)
      else if n = ''tuple'' then container TupleOf (case ks of [] \<Rightarrow> Mixed | k # r \<Rightarrow> item_of k)
      else if n = ''zip'' then container IteratorOf (container TupleOf (join (map item_of ks)))
      else if n \<in> set [''int'', ''float'', ''str'', ''bool'', ''len''] then Scalar
      else if n = ''type'' then
        (case ks of [k] \<Rightarrow> if k = FromLibrary then FromLibrary else BuiltinObject
         | other \<Rightarrow> Unclassified)
      else if n = ''print'' then BuiltinObject
      else Unclassified)"

text \<open>
  What a call returns: a callee that is a library value returns a library value, a
  builtin its result, a class of the notebook an instance; a method of a value the
  caller passed belongs to the caller's value.
\<close>

definition call_result :: "kinds \<Rightarrow> expr \<Rightarrow> vkind \<Rightarrow> vkind list \<Rightarrow> vkind" where
  "call_result en f fk ks =
     (if fk = FromLibrary then FromLibrary
      else if fk = FromCaller then FromCaller
      else if fk = ClassObject then InstanceObject
      else if fk = BuiltinObject then builtin_result (last_name f) ks
      else Unclassified)"

definition name_kind :: "kinds \<Rightarrow> string \<Rightarrow> vkind" where
  "name_kind en n =
     (case map_of en n of
        Some k \<Rightarrow> k
      | None \<Rightarrow> if n \<in> set builtin_names then BuiltinObject else Unclassified)"

text \<open>The names a loop or a comprehension binds: one target takes the item, several unpack it.\<close>

definition bind_targets :: "string list \<Rightarrow> vkind \<Rightarrow> kinds" where
  "bind_targets ts k = (case ts of [t] \<Rightarrow> [(t, k)] | other \<Rightarrow> map (\<lambda>t. (t, item_of k)) ts)"

primrec kind_of :: "expr \<Rightarrow> kinds \<Rightarrow> vkind" where
  "kind_of (Name n) en = name_kind en n"
| "kind_of (Str s) en = Scalar"
| "kind_of (Num i) en = Scalar"
| "kind_of (Flt s) en = Scalar"
| "kind_of (BoolC b) en = Scalar"
| "kind_of (Neg e) en = negation_of (kind_of e en)"
| "kind_of (Attr e a) en = attribute_of (kind_of e en)"
| "kind_of (Call f args kws) en =
     call_result en f (kind_of f en) (map (\<lambda>a. kind_of a en) args)"
| "kind_of (Subscript e i) en = subscript_of (kind_of e en) (is_slice i)"
| "kind_of (Slice l u) en = BuiltinObject"
| "kind_of (Minus a b) en = binary_of (kind_of a en) (kind_of b en)"
| "kind_of (Eq a b) en = binary_of (kind_of a en) (kind_of b en)"
| "kind_of (ListE es) en = container ListOf (join (map (\<lambda>e. kind_of e en) es))"
| "kind_of (TupleE es) en = container TupleOf (join (map (\<lambda>e. kind_of e en) es))"
| "kind_of (DictE ks vs) en = container DictOf (join (map (\<lambda>e. kind_of e en) vs))"
| "kind_of (ListComp e ts it) en =
     container ListOf (kind_of e (bind_targets ts (item_of (kind_of it en)) @ en))"

text \<open>
  The entities of a notebook: the value of every expression and subexpression, and
  every binding of a name, by an import, an assignment, a loop, a comprehension, a
  parameter or a definition.
\<close>

datatype entity = Value expr vkind | Binds string vkind

fun entity_kind :: "entity \<Rightarrow> vkind" where
  "entity_kind (Value e k) = k"
| "entity_kind (Binds x k) = k"

primrec values_of :: "expr \<Rightarrow> kinds \<Rightarrow> entity list"
  and kw_values_of :: "keyword \<Rightarrow> kinds \<Rightarrow> entity list" where
  "values_of (Name n) en = [Value (Name n) (kind_of (Name n) en)]"
| "values_of (Str s) en = [Value (Str s) Scalar]"
| "values_of (Num i) en = [Value (Num i) Scalar]"
| "values_of (Flt s) en = [Value (Flt s) Scalar]"
| "values_of (BoolC b) en = [Value (BoolC b) Scalar]"
| "values_of (Neg e) en = Value (Neg e) (kind_of (Neg e) en) # values_of e en"
| "values_of (Attr e a) en = Value (Attr e a) (kind_of (Attr e a) en) # values_of e en"
| "values_of (Call f args kws) en =
     Value (Call f args kws) (kind_of (Call f args kws) en) # values_of f en
       @ concat (map (\<lambda>a. values_of a en) args) @ concat (map (\<lambda>kw. kw_values_of kw en) kws)"
| "values_of (Subscript e i) en =
     Value (Subscript e i) (kind_of (Subscript e i) en) # values_of e en @ values_of i en"
| "values_of (Slice l u) en = Value (Slice l u) BuiltinObject # values_of l en @ values_of u en"
| "values_of (Minus a b) en =
     Value (Minus a b) (kind_of (Minus a b) en) # values_of a en @ values_of b en"
| "values_of (Eq a b) en = Value (Eq a b) (kind_of (Eq a b) en) # values_of a en @ values_of b en"
| "values_of (ListE es) en =
     Value (ListE es) (kind_of (ListE es) en) # concat (map (\<lambda>e. values_of e en) es)"
| "values_of (TupleE es) en =
     Value (TupleE es) (kind_of (TupleE es) en) # concat (map (\<lambda>e. values_of e en) es)"
| "values_of (DictE ks vs) en =
     Value (DictE ks vs) (kind_of (DictE ks vs) en) # concat (map (\<lambda>e. values_of e en) ks)
       @ concat (map (\<lambda>e. values_of e en) vs)"
| "values_of (ListComp e ts it) en =
     Value (ListComp e ts it) (kind_of (ListComp e ts it) en) # values_of it en
       @ map (\<lambda>tk. Binds (fst tk) (snd tk)) (bind_targets ts (item_of (kind_of it en)))
       @ values_of e (bind_targets ts (item_of (kind_of it en)) @ en)"
| "kw_values_of (Keyword k e) en = values_of e en"

fun entities_stmt :: "kinds \<Rightarrow> stmt \<Rightarrow> kinds \<times> entity list"
  and entities_stmts :: "kinds \<Rightarrow> stmt list \<Rightarrow> kinds \<times> entity list" where
  "entities_stmt en (Import m a) = ((a, FromLibrary) # en, [Binds a FromLibrary])"
| "entities_stmt en (FromImport m ns) =
     (map (\<lambda>n. (n, FromLibrary)) ns @ en, map (\<lambda>n. Binds n FromLibrary) ns)"
| "entities_stmt en (Assign t e) =
     ((t, kind_of e en) # en, values_of e en @ [Binds t (kind_of e en)])"
| "entities_stmt en (ExprStmt e) = (en, values_of e en)"
| "entities_stmt en (For ts it ss) =
     (case entities_stmts (bind_targets ts (item_of (kind_of it en)) @ en) ss of
        (en', evs) \<Rightarrow>
          (en', values_of it en
                  @ map (\<lambda>tk. Binds (fst tk) (snd tk)) (bind_targets ts (item_of (kind_of it en)))
                  @ evs))"
| "entities_stmt en (FunDef f ps ss) =
     ((f, FunctionObject) # en,
      Binds f FunctionObject # map (\<lambda>p. Binds p FromCaller) ps
        @ snd (entities_stmts (map (\<lambda>p. (p, FromCaller)) ps @ en) ss))"
| "entities_stmt en (Return e) = (en, values_of e en)"
| "entities_stmt en (ClassDef c ss) =
     ((c, ClassObject) # en, Binds c ClassObject # snd (entities_stmts en ss))"
| "entities_stmt en (Try ss hs) =
     (case entities_stmts en ss of
        (en', evs) \<Rightarrow> (case entities_stmts en' hs of (en'', evs') \<Rightarrow> (en'', evs @ evs')))"
| "entities_stmt en (Raise e) = (en, values_of e en)"
| "entities_stmts en [] = (en, [])"
| "entities_stmts en (s # ss) =
     (case entities_stmt en s of
        (en', evs) \<Rightarrow> (case entities_stmts en' ss of (en'', evs') \<Rightarrow> (en'', evs @ evs')))"

definition entities :: "stmt list list \<Rightarrow> entity list" where
  "entities nb = snd (entities_stmts [] (concat nb))"

definition entity_kinds :: "stmt list list \<Rightarrow> vkind list" where
  "entity_kinds nb = remdups (map entity_kind (entities nb))"

fun binding :: "entity \<Rightarrow> (string \<times> vkind) list" where
  "binding (Binds x k) = [(x, k)]"
| "binding (Value e k) = []"

definition bindings :: "stmt list list \<Rightarrow> (string \<times> vkind) list" where
  "bindings nb = remdups (concat (map binding (entities nb)))"

text \<open>
  The plain Python containers a notebook builds, named or not, and the bindings that
  do not hold a library value.
\<close>

fun is_container :: "vkind \<Rightarrow> bool" where
  "is_container (ListOf k) = True"
| "is_container (TupleOf k) = True"
| "is_container (DictOf k) = True"
| "is_container (IteratorOf k) = True"
| "is_container k = False"

fun built_container :: "entity \<Rightarrow> (expr \<times> vkind) list" where
  "built_container (Value (Name n) k) = []"
| "built_container (Value e k) = (if is_container k then [(e, k)] else [])"
| "built_container (Binds x k) = []"

definition built_containers :: "stmt list list \<Rightarrow> (expr \<times> vkind) list" where
  "built_containers nb = remdups (concat (map built_container (entities nb)))"

definition own_bindings :: "stmt list list \<Rightarrow> (string \<times> vkind) list" where
  "own_bindings nb = filter (\<lambda>xk. snd xk \<noteq> FromLibrary) (bindings nb)"

section \<open>The code cells\<close>

text \<open>
  Cell 2 of Practical 7:
  \<^verbatim>\<open>
  import geopandas as gpd
  import folium
  import matplotlib.pyplot as plt
  \<close>
\<close>

definition practical7_cell2 :: "stmt list" where
  "practical7_cell2 =
     [Import ''geopandas'' ''gpd'',
      Import ''folium'' ''folium'',
      Import ''matplotlib.pyplot'' ''plt'']"

text \<open>
  Cell 4 of Practical 7:
  \<^verbatim>\<open>
  m = folium.Map(location=[50.934358, -1.399073],
                 zoom_start=15
                )
  m
  \<close>
\<close>

definition practical7_cell4 :: "stmt list" where
  "practical7_cell4 =
     [Assign ''m''
        (Call (Attr (Name ''folium'') ''Map'') []
           [Keyword ''location'' (ListE [Flt ''50.934358'', Neg (Flt ''1.399073'')]),
            Keyword ''zoom_start'' (Num 15)]),
      ExprStmt (Name ''m'')]"

text \<open>
  Cell 7 of Practical 7:
  \<^verbatim>\<open>
  m = folium.Map(location=[50.934358, -1.399073],
                 tiles='Stamen watercolor',
                 zoom_start=15
                )
  m
  \<close>
\<close>

definition practical7_cell7 :: "stmt list" where
  "practical7_cell7 =
     [Assign ''m''
        (Call (Attr (Name ''folium'') ''Map'') []
           [Keyword ''location'' (ListE [Flt ''50.934358'', Neg (Flt ''1.399073'')]),
            Keyword ''tiles'' (Str ''Stamen watercolor''),
            Keyword ''zoom_start'' (Num 15)]),
      ExprStmt (Name ''m'')]"

text \<open>
  Cell 9 of Practical 7:
  \<^verbatim>\<open>
  folium.TileLayer('stamentoner').add_to(m)
  folium.LayerControl().add_to(m)
  m
  \<close>
\<close>

definition practical7_cell9 :: "stmt list" where
  "practical7_cell9 =
     [ExprStmt
        (Call
           (Attr (Call (Attr (Name ''folium'') ''TileLayer'') [Str ''stamentoner''] [])
              ''add_to'')
           [Name ''m'']
           []),
      ExprStmt
        (Call (Attr (Call (Attr (Name ''folium'') ''LayerControl'') [] []) ''add_to'')
           [Name ''m'']
           []),
      ExprStmt (Name ''m'')]"

text \<open>
  Cell 11 of Practical 7:
  \<^verbatim>\<open>
  smkt = gpd.read_file('../data/soton_smkts.gpkg')
  smkt = smkt.explode()
  smkt = smkt.to_crs(4326)
  smkt.head()
  \<close>
\<close>

definition practical7_cell11 :: "stmt list" where
  "practical7_cell11 =
     [Assign ''smkt''
        (Call (Attr (Name ''gpd'') ''read_file'') [Str ''../data/soton_smkts.gpkg''] []),
      Assign ''smkt'' (Call (Attr (Name ''smkt'') ''explode'') [] []),
      Assign ''smkt'' (Call (Attr (Name ''smkt'') ''to_crs'') [Num 4326] []),
      ExprStmt (Call (Attr (Name ''smkt'') ''head'') [] [])]"

text \<open>
  Cell 12 of Practical 7:
  \<^verbatim>\<open>
  ff = gpd.read_file('../data/soton_fastfood.gpkg')
  ff = ff.explode()
  ff = ff.to_crs(4326)
  ff.head()
  \<close>
\<close>

definition practical7_cell12 :: "stmt list" where
  "practical7_cell12 =
     [Assign ''ff''
        (Call (Attr (Name ''gpd'') ''read_file'') [Str ''../data/soton_fastfood.gpkg''] []),
      Assign ''ff'' (Call (Attr (Name ''ff'') ''explode'') [] []),
      Assign ''ff'' (Call (Attr (Name ''ff'') ''to_crs'') [Num 4326] []),
      ExprStmt (Call (Attr (Name ''ff'') ''head'') [] [])]"

text \<open>
  Cell 14 of Practical 7:
  \<^verbatim>\<open>
  ff_gj = folium.features.GeoJson(ff,
                                  name='Fast Food'
                                 )
  \<close>
\<close>

definition practical7_cell14 :: "stmt list" where
  "practical7_cell14 =
     [Assign ''ff_gj''
        (Call (Attr (Attr (Name ''folium'') ''features'') ''GeoJson'') [Name ''ff'']
           [Keyword ''name'' (Str ''Fast Food'')])]"

text \<open>
  Cell 15 of Practical 7:
  \<^verbatim>\<open>
  m = folium.Map(location=[50.934358, -1.399073],
                 zoom_start=12,
                 control_scale=True
                )
  ff_gj.add_to(m)
  folium.LayerControl().add_to(m)
  m
  \<close>
\<close>

definition practical7_cell15 :: "stmt list" where
  "practical7_cell15 =
     [Assign ''m''
        (Call (Attr (Name ''folium'') ''Map'') []
           [Keyword ''location'' (ListE [Flt ''50.934358'', Neg (Flt ''1.399073'')]),
            Keyword ''zoom_start'' (Num 12),
            Keyword ''control_scale'' (BoolC True)]),
      ExprStmt (Call (Attr (Name ''ff_gj'') ''add_to'') [Name ''m''] []),
      ExprStmt
        (Call (Attr (Call (Attr (Name ''folium'') ''LayerControl'') [] []) ''add_to'')
           [Name ''m'']
           []),
      ExprStmt (Name ''m'')]"

text \<open>
  Cell 17 of Practical 7:
  \<^verbatim>\<open>
  m = folium.Map(location=[50.934358, -1.399073],
                 zoom_start=12,
                 control_scale=True
                )
  ff_gj.add_to(m)
  for idx, feature in smkt.iterrows():
      marker = folium.map.Marker([feature['geometry'].y, feature['geometry'].x],
                                 icon=folium.Icon(color='green')
                                ).add_to(m)
  m
  \<close>
\<close>

definition practical7_cell17 :: "stmt list" where
  "practical7_cell17 =
     [Assign ''m''
        (Call (Attr (Name ''folium'') ''Map'') []
           [Keyword ''location'' (ListE [Flt ''50.934358'', Neg (Flt ''1.399073'')]),
            Keyword ''zoom_start'' (Num 12),
            Keyword ''control_scale'' (BoolC True)]),
      ExprStmt (Call (Attr (Name ''ff_gj'') ''add_to'') [Name ''m''] []),
      For [''idx'', ''feature''] (Call (Attr (Name ''smkt'') ''iterrows'') [] [])
        [Assign ''marker''
           (Call
              (Attr
                 (Call (Attr (Attr (Name ''folium'') ''map'') ''Marker'')
                    [ListE
                       [Attr (Subscript (Name ''feature'') (Str ''geometry'')) ''y'',
                        Attr (Subscript (Name ''feature'') (Str ''geometry'')) ''x'']]
                    [Keyword ''icon''
                       (Call (Attr (Name ''folium'') ''Icon'') []
                          [Keyword ''color'' (Str ''green'')])])
                 ''add_to'')
              [Name ''m'']
              [])],
      ExprStmt (Name ''m'')]"

text \<open>
  Cell 19 of Practical 7:
  \<^verbatim>\<open>
  from folium.plugins import MarkerCluster
  \<close>
\<close>

definition practical7_cell19 :: "stmt list" where
  "practical7_cell19 =
     [FromImport ''folium.plugins'' [''MarkerCluster'']]"

text \<open>
  Cell 20 of Practical 7:
  \<^verbatim>\<open>
  m = folium.Map(location=[50.934358, -1.399073],
                 zoom_start=12,
                 control_scale=True
                )
  \<close>
\<close>

definition practical7_cell20 :: "stmt list" where
  "practical7_cell20 =
     [Assign ''m''
        (Call (Attr (Name ''folium'') ''Map'') []
           [Keyword ''location'' (ListE [Flt ''50.934358'', Neg (Flt ''1.399073'')]),
            Keyword ''zoom_start'' (Num 12),
            Keyword ''control_scale'' (BoolC True)])]"

text \<open>
  Cell 21 of Practical 7:
  \<^verbatim>\<open>
  locns = list(zip(ff.geometry.y, ff.geometry.x))
  \<close>
\<close>

definition practical7_cell21 :: "stmt list" where
  "practical7_cell21 =
     [Assign ''locns''
        (Call (Name ''list'')
           [Call (Name ''zip'')
              [Attr (Attr (Name ''ff'') ''geometry'') ''y'',
               Attr (Attr (Name ''ff'') ''geometry'') ''x'']
              []]
           [])]"

text \<open>
  Cell 22 of Practical 7:
  \<^verbatim>\<open>
  mc = MarkerCluster(locns)
  mc.add_to(m)
  m
  \<close>
\<close>

definition practical7_cell22 :: "stmt list" where
  "practical7_cell22 =
     [Assign ''mc'' (Call (Name ''MarkerCluster'') [Name ''locns''] []),
      ExprStmt (Call (Attr (Name ''mc'') ''add_to'') [Name ''m''] []),
      ExprStmt (Name ''m'')]"

text \<open>
  Cell 26 of Practical 7:
  \<^verbatim>\<open>
  from folium.plugins import HeatMap
  \<close>
\<close>

definition practical7_cell26 :: "stmt list" where
  "practical7_cell26 =
     [FromImport ''folium.plugins'' [''HeatMap'']]"

text \<open>
  Cell 27 of Practical 7:
  \<^verbatim>\<open>
  m = folium.Map(location=[50.934358, -1.399073],
                 zoom_start=12,
                 control_scale=True
                )
  \<close>
\<close>

definition practical7_cell27 :: "stmt list" where
  "practical7_cell27 =
     [Assign ''m''
        (Call (Attr (Name ''folium'') ''Map'') []
           [Keyword ''location'' (ListE [Flt ''50.934358'', Neg (Flt ''1.399073'')]),
            Keyword ''zoom_start'' (Num 12),
            Keyword ''control_scale'' (BoolC True)])]"

text \<open>
  Cell 28 of Practical 7:
  \<^verbatim>\<open>
  hm = HeatMap(locns,
               name='FF_heatmap'
              )
  hm.add_to(m)
  folium.LayerControl().add_to(m)
  m
  \<close>
\<close>

definition practical7_cell28 :: "stmt list" where
  "practical7_cell28 =
     [Assign ''hm''
        (Call (Name ''HeatMap'') [Name ''locns''] [Keyword ''name'' (Str ''FF_heatmap'')]),
      ExprStmt (Call (Attr (Name ''hm'') ''add_to'') [Name ''m''] []),
      ExprStmt
        (Call (Attr (Call (Attr (Name ''folium'') ''LayerControl'') [] []) ''add_to'')
           [Name ''m'']
           []),
      ExprStmt (Name ''m'')]"

text \<open>
  Cell 30 of Practical 7 holds no statement.
\<close>

definition practical7_cell30 :: "stmt list" where
  "practical7_cell30 =
     []"

text \<open>
  Cell 32 of Practical 7:
  \<^verbatim>\<open>
  import pandas as pd
  lsoa = gpd.read_file('../data/soton_lsoa_distance.gpkg')
  imd = pd.read_csv('../data/IMD2019_Index_of_Multiple_Deprivation.csv')
  imd = imd.rename(columns={'LSOA code (2011)':'lsoa',
                            'Index of Multiple Deprivation (IMD) Decile':'imd_decile'
                           })
  imd = imd[['lsoa','imd_decile']]
  \<close>
\<close>

definition practical7_cell32 :: "stmt list" where
  "practical7_cell32 =
     [Import ''pandas'' ''pd'',
      Assign ''lsoa''
        (Call (Attr (Name ''gpd'') ''read_file'') [Str ''../data/soton_lsoa_distance.gpkg'']
           []),
      Assign ''imd''
        (Call (Attr (Name ''pd'') ''read_csv'')
           [Str ''../data/IMD2019_Index_of_Multiple_Deprivation.csv'']
           []),
      Assign ''imd''
        (Call (Attr (Name ''imd'') ''rename'') []
           [Keyword ''columns''
              (DictE
                 [Str ''LSOA code (2011)'',
                  Str ''Index of Multiple Deprivation (IMD) Decile'']
                 [Str ''lsoa'', Str ''imd_decile''])]),
      Assign ''imd'' (Subscript (Name ''imd'') (ListE [Str ''lsoa'', Str ''imd_decile'']))]"

text \<open>
  Cell 33 of Practical 7:
  \<^verbatim>\<open>
  imd.head()
  \<close>
\<close>

definition practical7_cell33 :: "stmt list" where
  "practical7_cell33 =
     [ExprStmt (Call (Attr (Name ''imd'') ''head'') [] [])]"

text \<open>
  Cell 34 of Practical 7:
  \<^verbatim>\<open>
  lsoa = lsoa.merge(imd, on='lsoa')
  \<close>
\<close>

definition practical7_cell34 :: "stmt list" where
  "practical7_cell34 =
     [Assign ''lsoa''
        (Call (Attr (Name ''lsoa'') ''merge'') [Name ''imd'']
           [Keyword ''on'' (Str ''lsoa'')])]"

text \<open>
  Cell 35 of Practical 7:
  \<^verbatim>\<open>
  lsoa.head()
  \<close>
\<close>

definition practical7_cell35 :: "stmt list" where
  "practical7_cell35 =
     [ExprStmt (Call (Attr (Name ''lsoa'') ''head'') [] [])]"

text \<open>
  Cell 36 of Practical 7:
  \<^verbatim>\<open>
  lsoa = lsoa.to_crs(4326)
  \<close>
\<close>

definition practical7_cell36 :: "stmt list" where
  "practical7_cell36 =
     [Assign ''lsoa'' (Call (Attr (Name ''lsoa'') ''to_crs'') [Num 4326] [])]"

text \<open>
  Cell 37 of Practical 7:
  \<^verbatim>\<open>
  lsoa.plot('imd_decile',
            categorical=True,
            legend=True,
            cmap='Reds',
            figsize=(15,10)
           )
  plt.show()
  \<close>
\<close>

definition practical7_cell37 :: "stmt list" where
  "practical7_cell37 =
     [ExprStmt
        (Call (Attr (Name ''lsoa'') ''plot'') [Str ''imd_decile'']
           [Keyword ''categorical'' (BoolC True),
            Keyword ''legend'' (BoolC True),
            Keyword ''cmap'' (Str ''Reds''),
            Keyword ''figsize'' (TupleE [Num 15, Num 10])]),
      ExprStmt (Call (Attr (Name ''plt'') ''show'') [] [])]"

text \<open>
  Cell 40 of Practical 7:
  \<^verbatim>\<open>
  m = folium.Map(location=[50.934358, -1.399073],
                 tiles='cartodbpositron',
                 zoom_start=12,
                 control_scale=True
                )
  folium.Choropleth(
      geo_data=lsoa,
      name='IMD_2019',
      data=lsoa,
      columns=['lsoa', 'imd_decile'],
      key_on='feature.properties.lsoa',
      fill_color='Reds',
      fill_opacity=0.7,
      line_opacity=0.7,
      legend_name='Index of Multiple Deprivation (IMD 2019)'
  ).add_to(m)
  folium.LayerControl().add_to(m)
  m
  \<close>
\<close>

definition practical7_cell40 :: "stmt list" where
  "practical7_cell40 =
     [Assign ''m''
        (Call (Attr (Name ''folium'') ''Map'') []
           [Keyword ''location'' (ListE [Flt ''50.934358'', Neg (Flt ''1.399073'')]),
            Keyword ''tiles'' (Str ''cartodbpositron''),
            Keyword ''zoom_start'' (Num 12),
            Keyword ''control_scale'' (BoolC True)]),
      ExprStmt
        (Call
           (Attr
              (Call (Attr (Name ''folium'') ''Choropleth'') []
                 [Keyword ''geo_data'' (Name ''lsoa''),
                  Keyword ''name'' (Str ''IMD_2019''),
                  Keyword ''data'' (Name ''lsoa''),
                  Keyword ''columns'' (ListE [Str ''lsoa'', Str ''imd_decile'']),
                  Keyword ''key_on'' (Str ''feature.properties.lsoa''),
                  Keyword ''fill_color'' (Str ''Reds''),
                  Keyword ''fill_opacity'' (Flt ''0.7''),
                  Keyword ''line_opacity'' (Flt ''0.7''),
                  Keyword ''legend_name''
                    (Str ''Index of Multiple Deprivation (IMD 2019)'')])
              ''add_to'')
           [Name ''m'']
           []),
      ExprStmt
        (Call (Attr (Call (Attr (Name ''folium'') ''LayerControl'') [] []) ''add_to'')
           [Name ''m'']
           []),
      ExprStmt (Name ''m'')]"

text \<open>
  Cell 42 of Practical 7:
  \<^verbatim>\<open>
  m = folium.Map(location=[50.934358, -1.399073],
                 tiles='cartodbpositron',
                 zoom_start=12,
                 control_scale=True
                )
  folium.Choropleth(
      geo_data=lsoa,
      name='IMD_2019',
      data=lsoa,
      columns=['lsoa', 'imd_decile'],
      key_on='feature.properties.lsoa',
      fill_color='Reds',
      fill_opacity=0.7,
      line_opacity=0.7,
      legend_name='Index of Multiple Deprivation (IMD 2019)',
      highlight=True
  ).add_to(m)
  folium.LayerControl().add_to(m)
  m
  \<close>
\<close>

definition practical7_cell42 :: "stmt list" where
  "practical7_cell42 =
     [Assign ''m''
        (Call (Attr (Name ''folium'') ''Map'') []
           [Keyword ''location'' (ListE [Flt ''50.934358'', Neg (Flt ''1.399073'')]),
            Keyword ''tiles'' (Str ''cartodbpositron''),
            Keyword ''zoom_start'' (Num 12),
            Keyword ''control_scale'' (BoolC True)]),
      ExprStmt
        (Call
           (Attr
              (Call (Attr (Name ''folium'') ''Choropleth'') []
                 [Keyword ''geo_data'' (Name ''lsoa''),
                  Keyword ''name'' (Str ''IMD_2019''),
                  Keyword ''data'' (Name ''lsoa''),
                  Keyword ''columns'' (ListE [Str ''lsoa'', Str ''imd_decile'']),
                  Keyword ''key_on'' (Str ''feature.properties.lsoa''),
                  Keyword ''fill_color'' (Str ''Reds''),
                  Keyword ''fill_opacity'' (Flt ''0.7''),
                  Keyword ''line_opacity'' (Flt ''0.7''),
                  Keyword ''legend_name''
                    (Str ''Index of Multiple Deprivation (IMD 2019)''),
                  Keyword ''highlight'' (BoolC True)])
              ''add_to'')
           [Name ''m'']
           []),
      ExprStmt
        (Call (Attr (Call (Attr (Name ''folium'') ''LayerControl'') [] []) ''add_to'')
           [Name ''m'']
           []),
      ExprStmt (Name ''m'')]"

text \<open>
  Cell 44 of Practical 7:
  \<^verbatim>\<open>
  m = folium.Map(location=[50.934358, -1.399073],
                 tiles='cartodbpositron',
                 zoom_start=12,
                 control_scale=True
                )
  colors = ['#a6cee3','#1f78b4','#b2df8a','#33a02c','#fb9a99',
            '#e31a1c','#fdbf6f','#ff7f00','#cab2d6','#6a3d9a']
  def style_function(feature):
      return {
          'fillOpacity': 0.7,
          'weight': 0,
          'color':'black',
          'fillColor': colors[int(feature['properties']['imd_decile'])-1]
      }
  folium.features.GeoJson(
      lsoa,
      style_function=style_function,
      name='IMD_2019'
  ).add_to(m)
  folium.LayerControl().add_to(m)
  m
  \<close>
\<close>

definition practical7_cell44 :: "stmt list" where
  "practical7_cell44 =
     [Assign ''m''
        (Call (Attr (Name ''folium'') ''Map'') []
           [Keyword ''location'' (ListE [Flt ''50.934358'', Neg (Flt ''1.399073'')]),
            Keyword ''tiles'' (Str ''cartodbpositron''),
            Keyword ''zoom_start'' (Num 12),
            Keyword ''control_scale'' (BoolC True)]),
      Assign ''colors''
        (ListE
           [Str ''#a6cee3'',
            Str ''#1f78b4'',
            Str ''#b2df8a'',
            Str ''#33a02c'',
            Str ''#fb9a99'',
            Str ''#e31a1c'',
            Str ''#fdbf6f'',
            Str ''#ff7f00'',
            Str ''#cab2d6'',
            Str ''#6a3d9a'']),
      FunDef ''style_function'' [''feature'']
        [Return
           (DictE [Str ''fillOpacity'', Str ''weight'', Str ''color'', Str ''fillColor'']
              [Flt ''0.7'',
               Num 0,
               Str ''black'',
               Subscript (Name ''colors'')
                 (Minus
                    (Call (Name ''int'')
                       [Subscript (Subscript (Name ''feature'') (Str ''properties''))
                          (Str ''imd_decile'')]
                       [])
                    (Num 1))])],
      ExprStmt
        (Call
           (Attr
              (Call (Attr (Attr (Name ''folium'') ''features'') ''GeoJson'') [Name ''lsoa'']
                 [Keyword ''style_function'' (Name ''style_function''),
                  Keyword ''name'' (Str ''IMD_2019'')])
              ''add_to'')
           [Name ''m'']
           []),
      ExprStmt
        (Call (Attr (Call (Attr (Name ''folium'') ''LayerControl'') [] []) ''add_to'')
           [Name ''m'']
           []),
      ExprStmt (Name ''m'')]"

text \<open>
  Cell 46 of Practical 7:
  \<^verbatim>\<open>
  m = folium.Map(location=[50.934358, -1.399073],
                 tiles='cartodbpositron',
                 zoom_start=12,
                 control_scale=True
                )
  choropleth = folium.Choropleth(
      geo_data=lsoa,
      name='IMD_2019',
      data=lsoa,
      columns=['lsoa', 'imd_decile'],
      key_on='feature.properties.lsoa',
      fill_color='Reds',
      fill_opacity=0.7,
      line_opacity=0.7,
      legend_name='Index of Multiple Deprivation (IMD 2019)',
      highlight=True
  ).add_to(m)
  folium.LayerControl().add_to(m)
  choropleth.geojson.add_child(
      folium.features.GeoJsonTooltip(fields=['lsoa','imd_decile'],
                                     aliases=['LSOA','IMD Decile'],
                                     style=("background-color: white; color: #333333; font-family: arial; font-size: 12px; padding: 10px;"),
                                     labels=True,
                                     sticky=True
                                    )
  )
  m
  \<close>
\<close>

definition practical7_cell46 :: "stmt list" where
  "practical7_cell46 =
     [Assign ''m''
        (Call (Attr (Name ''folium'') ''Map'') []
           [Keyword ''location'' (ListE [Flt ''50.934358'', Neg (Flt ''1.399073'')]),
            Keyword ''tiles'' (Str ''cartodbpositron''),
            Keyword ''zoom_start'' (Num 12),
            Keyword ''control_scale'' (BoolC True)]),
      Assign ''choropleth''
        (Call
           (Attr
              (Call (Attr (Name ''folium'') ''Choropleth'') []
                 [Keyword ''geo_data'' (Name ''lsoa''),
                  Keyword ''name'' (Str ''IMD_2019''),
                  Keyword ''data'' (Name ''lsoa''),
                  Keyword ''columns'' (ListE [Str ''lsoa'', Str ''imd_decile'']),
                  Keyword ''key_on'' (Str ''feature.properties.lsoa''),
                  Keyword ''fill_color'' (Str ''Reds''),
                  Keyword ''fill_opacity'' (Flt ''0.7''),
                  Keyword ''line_opacity'' (Flt ''0.7''),
                  Keyword ''legend_name''
                    (Str ''Index of Multiple Deprivation (IMD 2019)''),
                  Keyword ''highlight'' (BoolC True)])
              ''add_to'')
           [Name ''m'']
           []),
      ExprStmt
        (Call (Attr (Call (Attr (Name ''folium'') ''LayerControl'') [] []) ''add_to'')
           [Name ''m'']
           []),
      ExprStmt
        (Call (Attr (Attr (Name ''choropleth'') ''geojson'') ''add_child'')
           [Call (Attr (Attr (Name ''folium'') ''features'') ''GeoJsonTooltip'') []
              [Keyword ''fields'' (ListE [Str ''lsoa'', Str ''imd_decile'']),
               Keyword ''aliases'' (ListE [Str ''LSOA'', Str ''IMD Decile'']),
               Keyword ''style''
                 (Str
                    ''background-color: white; color: #333333; font-family: arial; font-size: 12px; padding: 10px;''),
               Keyword ''labels'' (BoolC True),
               Keyword ''sticky'' (BoolC True)]]
           []),
      ExprStmt (Name ''m'')]"

text \<open>
  Cell 48 of Practical 7:
  \<^verbatim>\<open>
  m.save("../test_folium_map.html")
  \<close>
\<close>

definition practical7_cell48 :: "stmt list" where
  "practical7_cell48 =
     [ExprStmt (Call (Attr (Name ''m'') ''save'') [Str ''../test_folium_map.html''] [])]"

definition practical7 :: "stmt list list" where
  "practical7 =
     [practical7_cell2, practical7_cell4, practical7_cell7, practical7_cell9,
      practical7_cell11, practical7_cell12, practical7_cell14, practical7_cell15,
      practical7_cell17, practical7_cell19, practical7_cell20, practical7_cell21,
      practical7_cell22, practical7_cell26, practical7_cell27, practical7_cell28,
      practical7_cell30, practical7_cell32, practical7_cell33, practical7_cell34,
      practical7_cell35, practical7_cell36, practical7_cell37, practical7_cell40,
      practical7_cell42, practical7_cell44, practical7_cell46, practical7_cell48]"

text \<open>
  Cell 1 of the GeoPandas introduction:
  \<^verbatim>\<open>
  import geopandas as gpd
  import pandas as pd
  \<close>
\<close>

definition vector_intro_cell1 :: "stmt list" where
  "vector_intro_cell1 =
     [Import ''geopandas'' ''gpd'', Import ''pandas'' ''pd'']"

text \<open>
  Cell 5 of the GeoPandas introduction:
  \<^verbatim>\<open>
  gdf = gpd.read_file('zip://../data/cb_2018_us_state_500k.zip')
  \<close>
\<close>

definition vector_intro_cell5 :: "stmt list" where
  "vector_intro_cell5 =
     [Assign ''gdf''
        (Call (Attr (Name ''gpd'') ''read_file'')
           [Str ''zip://../data/cb_2018_us_state_500k.zip'']
           [])]"

text \<open>
  Cell 7 of the GeoPandas introduction:
  \<^verbatim>\<open>
  type(gdf)
  \<close>
\<close>

definition vector_intro_cell7 :: "stmt list" where
  "vector_intro_cell7 =
     [ExprStmt (Call (Name ''type'') [Name ''gdf''] [])]"

text \<open>
  Cell 8 of the GeoPandas introduction:
  \<^verbatim>\<open>
  gdf.shape
  \<close>
\<close>

definition vector_intro_cell8 :: "stmt list" where
  "vector_intro_cell8 =
     [ExprStmt (Attr (Name ''gdf'') ''shape'')]"

text \<open>
  Cell 9 of the GeoPandas introduction:
  \<^verbatim>\<open>
  gdf.head()
  \<close>
\<close>

definition vector_intro_cell9 :: "stmt list" where
  "vector_intro_cell9 =
     [ExprStmt (Call (Attr (Name ''gdf'') ''head'') [] [])]"

text \<open>
  Cell 12 of the GeoPandas introduction:
  \<^verbatim>\<open>
  gdf['ALAND'].sum()
  \<close>
\<close>

definition vector_intro_cell12 :: "stmt list" where
  "vector_intro_cell12 =
     [ExprStmt (Call (Attr (Subscript (Name ''gdf'') (Str ''ALAND'')) ''sum'') [] [])]"

text \<open>
  Cell 13 of the GeoPandas introduction:
  \<^verbatim>\<open>
  gdf.area.head()
  \<close>
\<close>

definition vector_intro_cell13 :: "stmt list" where
  "vector_intro_cell13 =
     [ExprStmt (Call (Attr (Attr (Name ''gdf'') ''area'') ''head'') [] [])]"

text \<open>
  Cell 16 of the GeoPandas introduction:
  \<^verbatim>\<open>
  gdfSub = gdf[['NAME', 'GEOID', 'ALAND']]
  \<close>
\<close>

definition vector_intro_cell16 :: "stmt list" where
  "vector_intro_cell16 =
     [Assign ''gdfSub''
        (Subscript (Name ''gdf'') (ListE [Str ''NAME'', Str ''GEOID'', Str ''ALAND'']))]"

text \<open>
  Cell 17 of the GeoPandas introduction:
  \<^verbatim>\<open>
  type(gdfSub)
  \<close>
\<close>

definition vector_intro_cell17 :: "stmt list" where
  "vector_intro_cell17 =
     [ExprStmt (Call (Name ''type'') [Name ''gdfSub''] [])]"

text \<open>
  Cell 18 of the GeoPandas introduction:
  \<^verbatim>\<open>
  gdfSub.head()
  \<close>
\<close>

definition vector_intro_cell18 :: "stmt list" where
  "vector_intro_cell18 =
     [ExprStmt (Call (Attr (Name ''gdfSub'') ''head'') [] [])]"

text \<open>
  Cell 20 of the GeoPandas introduction:
  \<^verbatim>\<open>
  nc = gdf[gdf['NAME'] == 'North Carolina']
  nc
  \<close>
\<close>

definition vector_intro_cell20 :: "stmt list" where
  "vector_intro_cell20 =
     [Assign ''nc''
        (Subscript (Name ''gdf'')
           (Eq (Subscript (Name ''gdf'') (Str ''NAME'')) (Str ''North Carolina''))),
      ExprStmt (Name ''nc'')]"

text \<open>
  Cell 21 of the GeoPandas introduction:
  \<^verbatim>\<open>
  nc.plot()
  \<close>
\<close>

definition vector_intro_cell21 :: "stmt list" where
  "vector_intro_cell21 =
     [ExprStmt (Call (Attr (Name ''nc'') ''plot'') [] [])]"

text \<open>
  Cell 23 of the GeoPandas introduction:
  \<^verbatim>\<open>
  gs = gdf.geometry
  \<close>
\<close>

definition vector_intro_cell23 :: "stmt list" where
  "vector_intro_cell23 =
     [Assign ''gs'' (Attr (Name ''gdf'') ''geometry'')]"

text \<open>
  Cell 24 of the GeoPandas introduction:
  \<^verbatim>\<open>
  type(gs)
  \<close>
\<close>

definition vector_intro_cell24 :: "stmt list" where
  "vector_intro_cell24 =
     [ExprStmt (Call (Name ''type'') [Name ''gs''] [])]"

text \<open>
  Cell 25 of the GeoPandas introduction:
  \<^verbatim>\<open>
  gs.head()
  \<close>
\<close>

definition vector_intro_cell25 :: "stmt list" where
  "vector_intro_cell25 =
     [ExprStmt (Call (Attr (Name ''gs'') ''head'') [] [])]"

text \<open>
  Cell 28 of the GeoPandas introduction:
  \<^verbatim>\<open>
  gdf.loc[0, 'geometry']
  \<close>
\<close>

definition vector_intro_cell28 :: "stmt list" where
  "vector_intro_cell28 =
     [ExprStmt
        (Subscript (Attr (Name ''gdf'') ''loc'') (TupleE [Num 0, Str ''geometry'']))]"

text \<open>
  Cell 29 of the GeoPandas introduction:
  \<^verbatim>\<open>
  gdf.geometry[0]
  \<close>
\<close>

definition vector_intro_cell29 :: "stmt list" where
  "vector_intro_cell29 =
     [ExprStmt (Subscript (Attr (Name ''gdf'') ''geometry'') (Num 0))]"

text \<open>
  Cell 31 of the GeoPandas introduction:
  \<^verbatim>\<open>
  len(gdf.geometry[0])
  \<close>
\<close>

definition vector_intro_cell31 :: "stmt list" where
  "vector_intro_cell31 =
     [ExprStmt
        (Call (Name ''len'') [Subscript (Attr (Name ''gdf'') ''geometry'') (Num 0)] [])]"

text \<open>
  Cell 32 of the GeoPandas introduction:
  \<^verbatim>\<open>
  gdf.geometry[0][0]
  \<close>
\<close>

definition vector_intro_cell32 :: "stmt list" where
  "vector_intro_cell32 =
     [ExprStmt (Subscript (Subscript (Attr (Name ''gdf'') ''geometry'') (Num 0)) (Num 0))]"

text \<open>
  Cell 33 of the GeoPandas introduction:
  \<^verbatim>\<open>
  gdf.geometry[0][7]
  \<close>
\<close>

definition vector_intro_cell33 :: "stmt list" where
  "vector_intro_cell33 =
     [ExprStmt (Subscript (Subscript (Attr (Name ''gdf'') ''geometry'') (Num 0)) (Num 7))]"

text \<open>
  Cell 36 of the GeoPandas introduction:
  \<^verbatim>\<open>
  from shapely.geometry import Point, LineString, Polygon
  \<close>
\<close>

definition vector_intro_cell36 :: "stmt list" where
  "vector_intro_cell36 =
     [FromImport ''shapely.geometry'' [''Point'', ''LineString'', ''Polygon'']]"

text \<open>
  Cell 37 of the GeoPandas introduction:
  \<^verbatim>\<open>
  test = gpd.GeoDataFrame({
                           'geometry': [Point(1, 1), Point(2,2)],
                           'var1': [1, 2],
                           'var2': [3, 4]
                          })
  print(test)
  type(test)
  \<close>
\<close>

definition vector_intro_cell37 :: "stmt list" where
  "vector_intro_cell37 =
     [Assign ''test''
        (Call (Attr (Name ''gpd'') ''GeoDataFrame'')
           [DictE [Str ''geometry'', Str ''var1'', Str ''var2'']
              [ListE
                 [Call (Name ''Point'') [Num 1, Num 1] [],
                  Call (Name ''Point'') [Num 2, Num 2] []],
               ListE [Num 1, Num 2],
               ListE [Num 3, Num 4]]]
           []),
      ExprStmt (Call (Name ''print'') [Name ''test''] []),
      ExprStmt (Call (Name ''type'') [Name ''test''] [])]"

text \<open>
  Cell 39 of the GeoPandas introduction:
  \<^verbatim>\<open>
  test = test.rename(columns={'geometry': 'shape'}).set_geometry('shape')
  test
  \<close>
\<close>

definition vector_intro_cell39 :: "stmt list" where
  "vector_intro_cell39 =
     [Assign ''test''
        (Call
           (Attr
              (Call (Attr (Name ''test'') ''rename'') []
                 [Keyword ''columns'' (DictE [Str ''geometry''] [Str ''shape''])])
              ''set_geometry'')
           [Str ''shape'']
           []),
      ExprStmt (Name ''test'')]"

text \<open>
  Cell 40 of the GeoPandas introduction:
  \<^verbatim>\<open>
  test.geometry
  \<close>
\<close>

definition vector_intro_cell40 :: "stmt list" where
  "vector_intro_cell40 =
     [ExprStmt (Attr (Name ''test'') ''geometry'')]"

text \<open>
  Cell 42 of the GeoPandas introduction:
  \<^verbatim>\<open>
  test.geometry.name
  \<close>
\<close>

definition vector_intro_cell42 :: "stmt list" where
  "vector_intro_cell42 =
     [ExprStmt (Attr (Attr (Name ''test'') ''geometry'') ''name'')]"

text \<open>
  Cell 44 of the GeoPandas introduction:
  \<^verbatim>\<open>
  type(test)
  \<close>
\<close>

definition vector_intro_cell44 :: "stmt list" where
  "vector_intro_cell44 =
     [ExprStmt (Call (Name ''type'') [Name ''test''] [])]"

text \<open>
  Cell 46 of the GeoPandas introduction:
  \<^verbatim>\<open>
  poly = Polygon([(0.5, 1), (1, 2), (.75, 3), (.75, 3.5), (.5, 4)])
  print(poly)
  poly
  \<close>
\<close>

definition vector_intro_cell46 :: "stmt list" where
  "vector_intro_cell46 =
     [Assign ''poly''
        (Call (Name ''Polygon'')
           [ListE
              [TupleE [Flt ''0.5'', Num 1],
               TupleE [Num 1, Num 2],
               TupleE [Flt ''.75'', Num 3],
               TupleE [Flt ''.75'', Flt ''3.5''],
               TupleE [Flt ''.5'', Num 4]]]
           []),
      ExprStmt (Call (Name ''print'') [Name ''poly''] []),
      ExprStmt (Name ''poly'')]"

text \<open>
  Cell 47 of the GeoPandas introduction:
  \<^verbatim>\<open>
  ln = LineString([(0.5, 1), (1, 2), (.75, 3), (.75, 3.5), (.5, 4)])
  print(ln)
  ln
  \<close>
\<close>

definition vector_intro_cell47 :: "stmt list" where
  "vector_intro_cell47 =
     [Assign ''ln''
        (Call (Name ''LineString'')
           [ListE
              [TupleE [Flt ''0.5'', Num 1],
               TupleE [Num 1, Num 2],
               TupleE [Flt ''.75'', Num 3],
               TupleE [Flt ''.75'', Flt ''3.5''],
               TupleE [Flt ''.5'', Num 4]]]
           []),
      ExprStmt (Call (Name ''print'') [Name ''ln''] []),
      ExprStmt (Name ''ln'')]"

text \<open>
  Cell 49 of the GeoPandas introduction holds no statement.
\<close>

definition vector_intro_cell49 :: "stmt list" where
  "vector_intro_cell49 =
     []"

text \<open>
  Cell 51 of the GeoPandas introduction:
  \<^verbatim>\<open>
  df = pd.read_csv('../data/ne_cities_10m.csv')
  type(df)
  \<close>
\<close>

definition vector_intro_cell51 :: "stmt list" where
  "vector_intro_cell51 =
     [Assign ''df''
        (Call (Attr (Name ''pd'') ''read_csv'') [Str ''../data/ne_cities_10m.csv''] []),
      ExprStmt (Call (Name ''type'') [Name ''df''] [])]"

text \<open>
  Cell 52 of the GeoPandas introduction:
  \<^verbatim>\<open>
  df.shape
  \<close>
\<close>

definition vector_intro_cell52 :: "stmt list" where
  "vector_intro_cell52 =
     [ExprStmt (Attr (Name ''df'') ''shape'')]"

text \<open>
  Cell 53 of the GeoPandas introduction:
  \<^verbatim>\<open>
  df.head()
  \<close>
\<close>

definition vector_intro_cell53 :: "stmt list" where
  "vector_intro_cell53 =
     [ExprStmt (Call (Attr (Name ''df'') ''head'') [] [])]"

text \<open>
  Cell 55 of the GeoPandas introduction:
  \<^verbatim>\<open>
  cities = gpd.GeoDataFrame(df,
                            geometry = gpd.points_from_xy(df.longitude, df.latitude))
  \<close>
\<close>

definition vector_intro_cell55 :: "stmt list" where
  "vector_intro_cell55 =
     [Assign ''cities''
        (Call (Attr (Name ''gpd'') ''GeoDataFrame'') [Name ''df'']
           [Keyword ''geometry''
              (Call (Attr (Name ''gpd'') ''points_from_xy'')
                 [Attr (Name ''df'') ''longitude'', Attr (Name ''df'') ''latitude'']
                 [])])]"

text \<open>
  Cell 57 of the GeoPandas introduction:
  \<^verbatim>\<open>
  cities.head()
  \<close>
\<close>

definition vector_intro_cell57 :: "stmt list" where
  "vector_intro_cell57 =
     [ExprStmt (Call (Attr (Name ''cities'') ''head'') [] [])]"

text \<open>
  Cell 59 of the GeoPandas introduction:
  \<^verbatim>\<open>
  cities.shape
  \<close>
\<close>

definition vector_intro_cell59 :: "stmt list" where
  "vector_intro_cell59 =
     [ExprStmt (Attr (Name ''cities'') ''shape'')]"

text \<open>
  Cell 61 of the GeoPandas introduction:
  \<^verbatim>\<open>
  [Point(x, y) for x, y in zip(df.longitude, df.latitude)][0:9]
  \<close>
\<close>

definition vector_intro_cell61 :: "stmt list" where
  "vector_intro_cell61 =
     [ExprStmt
        (Subscript
           (ListComp (Call (Name ''Point'') [Name ''x'', Name ''y''] []) [''x'', ''y'']
              (Call (Name ''zip'')
                 [Attr (Name ''df'') ''longitude'', Attr (Name ''df'') ''latitude'']
                 []))
           (Slice (Num 0) (Num 9)))]"

text \<open>
  Cell 63 of the GeoPandas introduction holds no statement.
\<close>

definition vector_intro_cell63 :: "stmt list" where
  "vector_intro_cell63 =
     []"

text \<open>
  Cell 65 of the GeoPandas introduction holds no statement.
\<close>

definition vector_intro_cell65 :: "stmt list" where
  "vector_intro_cell65 =
     []"

text \<open>
  Cell 68 of the GeoPandas introduction holds no statement.
\<close>

definition vector_intro_cell68 :: "stmt list" where
  "vector_intro_cell68 =
     []"

text \<open>
  Cell 70 of the GeoPandas introduction holds no statement.
\<close>

definition vector_intro_cell70 :: "stmt list" where
  "vector_intro_cell70 =
     []"

definition vector_intro :: "stmt list list" where
  "vector_intro =
     [vector_intro_cell1, vector_intro_cell5, vector_intro_cell7, vector_intro_cell8,
      vector_intro_cell9, vector_intro_cell12, vector_intro_cell13,
      vector_intro_cell16, vector_intro_cell17, vector_intro_cell18,
      vector_intro_cell20, vector_intro_cell21, vector_intro_cell23,
      vector_intro_cell24, vector_intro_cell25, vector_intro_cell28,
      vector_intro_cell29, vector_intro_cell31, vector_intro_cell32,
      vector_intro_cell33, vector_intro_cell36, vector_intro_cell37,
      vector_intro_cell39, vector_intro_cell40, vector_intro_cell42,
      vector_intro_cell44, vector_intro_cell46, vector_intro_cell47,
      vector_intro_cell49, vector_intro_cell51, vector_intro_cell52,
      vector_intro_cell53, vector_intro_cell55, vector_intro_cell57,
      vector_intro_cell59, vector_intro_cell61, vector_intro_cell63,
      vector_intro_cell65, vector_intro_cell68, vector_intro_cell70]"

section \<open>Evaluating the body of a notebook function\<close>

text \<open>
  An evaluator for the expressions \<open>style_function\<close> is written with: names, literals,
  subscripts by a string or an integer, integer subtraction, the builtin \<^verbatim>\<open>int\<close> (the
  parameter \<open>to_int\<close>) and list and dict displays.  An expression outside this fragment
  is answered \<open>NotModelled\<close>; an exception of the program is \<open>Raised\<close>.
\<close>

datatype failure = Raised error | NotModelled

text \<open>Storing under a key: a key already present keeps its place.\<close>

fun dict_set :: "(string \<times> pyval) list \<Rightarrow> string \<Rightarrow> pyval \<Rightarrow> (string \<times> pyval) list" where
  "dict_set [] k v = [(k, v)]"
| "dict_set (kv # kvs) k v =
     (if fst kv = k then (k, v) # kvs else kv # dict_set kvs k v)"

definition raised :: "error + 'a \<Rightarrow> failure + 'a" where
  "raised r = (case r of Inl e \<Rightarrow> Inl (Raised e) | Inr x \<Rightarrow> Inr x)"

fun subscript :: "pyval \<Rightarrow> pyval \<Rightarrow> failure + pyval" where
  "subscript v (PStr k) = raised (subscript_str v k)"
| "subscript (PList xs) (PInt i) = raised (list_index xs i)"
| "subscript v k = Inl NotModelled"

fun minus_val :: "pyval \<Rightarrow> pyval \<Rightarrow> failure + pyval" where
  "minus_val (PInt a) (PInt b) = Inr (PInt (a - b))"
| "minus_val x y = Inl NotModelled"

text \<open>
  The results of a display's element expressions, taken in evaluation order: the first
  failure is the display's failure.  A dict display evaluates key, value, key, value.
\<close>

fun all_values :: "(failure + pyval) list \<Rightarrow> failure + pyval list" where
  "all_values [] = Inr []"
| "all_values (r # rs) =
     (case r of
        Inl x \<Rightarrow> Inl x
      | Inr v \<Rightarrow> (case all_values rs of Inl x \<Rightarrow> Inl x | Inr vs \<Rightarrow> Inr (v # vs)))"

fun key_of :: "pyval \<Rightarrow> failure + string" where
  "key_of (PStr s) = Inr s"
| "key_of v = Inl NotModelled"

fun all_items :: "(failure + pyval) list \<Rightarrow> (failure + pyval) list \<Rightarrow> (string \<times> pyval) list
    \<Rightarrow> failure + (string \<times> pyval) list" where
  "all_items [] [] acc = Inr acc"
| "all_items (k # ks) (v # vs) acc =
     (case k of
        Inl x \<Rightarrow> Inl x
      | Inr kv \<Rightarrow>
         (case key_of kv of
            Inl x \<Rightarrow> Inl x
          | Inr s \<Rightarrow>
             (case v of Inl x \<Rightarrow> Inl x | Inr w \<Rightarrow> all_items ks vs (dict_set acc s w))))"
| "all_items ks vs acc = Inl NotModelled"

primrec eval :: "expr \<Rightarrow> (pyval \<Rightarrow> error + int) \<Rightarrow> (string \<times> pyval) list \<Rightarrow> failure + pyval" where
  "eval (Name n) to_int en =
     (case map_of en n of Some v \<Rightarrow> Inr v | None \<Rightarrow> Inl NotModelled)"
| "eval (Str s) to_int en = Inr (PStr s)"
| "eval (Num i) to_int en = Inr (PInt i)"
| "eval (Flt s) to_int en = Inr (PFlt s)"
| "eval (BoolC b) to_int en = Inr (PBool b)"
| "eval (Neg e) to_int en = Inl NotModelled"
| "eval (Attr e a) to_int en = Inl NotModelled"
| "eval (Call f args kws) to_int en =
     (if f = Name ''int'' \<and> map_of en ''int'' = None \<and> length args = 1 \<and> kws = []
      then (case all_values (map (\<lambda>a. eval a to_int en) args) of
              Inl x \<Rightarrow> Inl x
            | Inr vs \<Rightarrow>
               (case raised (to_int (hd vs)) of Inl x \<Rightarrow> Inl x | Inr d \<Rightarrow> Inr (PInt d)))
      else Inl NotModelled)"
| "eval (Subscript e i) to_int en =
     (case eval e to_int en of
        Inl x \<Rightarrow> Inl x
      | Inr v \<Rightarrow> (case eval i to_int en of Inl x \<Rightarrow> Inl x | Inr k \<Rightarrow> subscript v k))"
| "eval (Slice l u) to_int en = Inl NotModelled"
| "eval (Minus a b) to_int en =
     (case eval a to_int en of
        Inl x \<Rightarrow> Inl x
      | Inr v \<Rightarrow> (case eval b to_int en of Inl x \<Rightarrow> Inl x | Inr w \<Rightarrow> minus_val v w))"
| "eval (Eq a b) to_int en = Inl NotModelled"
| "eval (ListE es) to_int en =
     (case all_values (map (\<lambda>e. eval e to_int en) es) of
        Inl x \<Rightarrow> Inl x
      | Inr vs \<Rightarrow> Inr (PList vs))"
| "eval (TupleE es) to_int en = Inl NotModelled"
| "eval (DictE ks vs) to_int en =
     (case all_items (map (\<lambda>e. eval e to_int en) ks) (map (\<lambda>e. eval e to_int en) vs) [] of
        Inl x \<Rightarrow> Inl x
      | Inr kvs \<Rightarrow> Inr (PDict kvs))"
| "eval (ListComp e ts it) to_int en = Inl NotModelled"

text \<open>
  Calling a notebook function whose body is one \<^verbatim>\<open>return\<close>: the parameters are bound
  to the arguments in front of the global names.
\<close>

fun call_fundef :: "(pyval \<Rightarrow> error + int) \<Rightarrow> (string \<times> pyval) list \<Rightarrow> stmt \<Rightarrow> pyval list
    \<Rightarrow> failure + pyval" where
  "call_fundef to_int globals (FunDef f ps [Return e]) args =
     (if length args = length ps then eval e to_int (zip ps args @ globals)
      else Inl (Raised TypeError))"
| "call_fundef to_int globals s args = Inl NotModelled"

section \<open>What the notebooks contain\<close>

text \<open>
  The facts below are computed from the cells.  They are shared by the theorems of
  the later sections.
\<close>

lemma fundefs_practical7:
  "fundefs practical7 =
     [FunDef ''style_function'' [''feature'']
        [Return
           (DictE [Str ''fillOpacity'', Str ''weight'', Str ''color'', Str ''fillColor'']
              [Flt ''0.7'', Num 0, Str ''black'',
               Subscript (Name ''colors'')
                 (Minus
                    (Call (Name ''int'')
                       [Subscript (Subscript (Name ''feature'') (Str ''properties''))
                          (Str ''imd_decile'')]
                       [])
                    (Num 1))])]]"
  by code_simp

lemma fundefs_vector_intro: "fundefs vector_intro = []"
  by code_simp

lemma callee_names_practical7:
  "callee_names practical7 =
     [''TileLayer'', ''explode'', ''iterrows'', ''Marker'', ''Icon'', ''list'', ''zip'',
      ''MarkerCluster'', ''HeatMap'', ''read_file'', ''read_csv'', ''rename'', ''merge'',
      ''head'', ''to_crs'', ''plot'', ''show'', ''int'', ''GeoJson'', ''Map'', ''Choropleth'',
      ''add_to'', ''LayerControl'', ''add_child'', ''GeoJsonTooltip'', ''save'']"
  by code_simp

lemma callee_names_vector_intro:
  "callee_names vector_intro =
     [''read_file'', ''sum'', ''plot'', ''len'', ''set_geometry'', ''rename'', ''Polygon'',
      ''LineString'', ''print'', ''read_csv'', ''type'', ''GeoDataFrame'', ''points_from_xy'',
      ''head'', ''Point'', ''zip'']"
  by code_simp

lemma import_table_practical7:
  "import_table practical7 =
     [(''gpd'', ''geopandas''), (''folium'', ''folium''), (''plt'', ''matplotlib.pyplot''),
      (''MarkerCluster'', ''folium.plugins.MarkerCluster''),
      (''HeatMap'', ''folium.plugins.HeatMap''), (''pd'', ''pandas'')]"
  by code_simp

lemma import_table_vector_intro:
  "import_table vector_intro =
     [(''gpd'', ''geopandas''), (''pd'', ''pandas''),
      (''Point'', ''shapely.geometry.Point''),
      (''LineString'', ''shapely.geometry.LineString''),
      (''Polygon'', ''shapely.geometry.Polygon'')]"
  by code_simp

lemma file_reads_practical7:
  "file_reads practical7 =
     [Call (Attr (Name ''gpd'') ''read_file'') [Str ''../data/soton_smkts.gpkg''] [],
      Call (Attr (Name ''gpd'') ''read_file'') [Str ''../data/soton_fastfood.gpkg''] [],
      Call (Attr (Name ''gpd'') ''read_file'') [Str ''../data/soton_lsoa_distance.gpkg''] [],
      Call (Attr (Name ''pd'') ''read_csv'')
        [Str ''../data/IMD2019_Index_of_Multiple_Deprivation.csv''] []]"
  by code_simp

lemma file_reads_vector_intro:
  "file_reads vector_intro =
     [Call (Attr (Name ''gpd'') ''read_file'')
        [Str ''zip://../data/cb_2018_us_state_500k.zip''] [],
      Call (Attr (Name ''pd'') ''read_csv'') [Str ''../data/ne_cities_10m.csv''] []]"
  by code_simp

lemma read_by_format_practical7:
  "list_all (read_by_format practical7) (file_reads practical7)"
  by code_simp

lemma read_by_format_vector_intro:
  "list_all (read_by_format vector_intro) (file_reads vector_intro)"
  by code_simp




lemma call_origins_practical7: "call_origins practical7 = [Builtin, Library]"
  by code_simp

lemma call_origins_vector_intro: "call_origins vector_intro = [Library, Builtin]"
  by code_simp

lemma builtin_calls_practical7: "calls_of Builtin practical7 = [''list'', ''zip'', ''int'']"
  by code_simp

lemma builtin_calls_vector_intro:
  "calls_of Builtin vector_intro = [''len'', ''print'', ''type'', ''zip'']"
  by code_simp

lemma library_calls_practical7:
  "calls_of Library practical7 =
     [''TileLayer'', ''explode'', ''iterrows'', ''Marker'', ''Icon'', ''MarkerCluster'',
      ''HeatMap'', ''read_file'', ''read_csv'', ''rename'', ''merge'', ''head'', ''to_crs'',
      ''plot'', ''show'', ''GeoJson'', ''Map'', ''Choropleth'', ''add_to'', ''LayerControl'',
      ''add_child'', ''GeoJsonTooltip'', ''save'']"
  by code_simp

lemma library_calls_vector_intro:
  "calls_of Library vector_intro =
     [''read_file'', ''sum'', ''plot'', ''set_geometry'', ''rename'', ''Polygon'',
      ''LineString'', ''read_csv'', ''GeoDataFrame'', ''points_from_xy'', ''head'', ''Point'']"
  by code_simp

lemma library_callees_practical7:
  "library_callees practical7 =
     [''folium.TileLayer'', ''folium.map.Marker'', ''folium.Icon'',
      ''folium.plugins.MarkerCluster'', ''folium.plugins.HeatMap'', ''geopandas.read_file'',
      ''pandas.read_csv'', ''matplotlib.pyplot.show'', ''folium.features.GeoJson'',
      ''folium.Map'', ''folium.Choropleth'', ''folium.LayerControl'',
      ''folium.features.GeoJsonTooltip'']"
  by code_simp

lemma library_callees_vector_intro:
  "library_callees vector_intro =
     [''geopandas.read_file'', ''shapely.geometry.Polygon'', ''shapely.geometry.LineString'',
      ''pandas.read_csv'', ''geopandas.GeoDataFrame'', ''geopandas.points_from_xy'',
      ''shapely.geometry.Point'']"
  by code_simp

lemma locns_assigned:
  "last_assigned practical7 ''locns'' =
     Some (Call (Name ''list'')
             [Call (Name ''zip'')
                [Attr (Attr (Name ''ff'') ''geometry'') ''y'',
                 Attr (Attr (Name ''ff'') ''geometry'') ''x'']
                []]
             [])"
  by code_simp

lemma colors_assigned:
  "last_assigned practical7 ''colors'' =
     Some (ListE [Str ''#a6cee3'', Str ''#1f78b4'', Str ''#b2df8a'', Str ''#33a02c'',
                  Str ''#fb9a99'', Str ''#e31a1c'', Str ''#fdbf6f'', Str ''#ff7f00'',
                  Str ''#cab2d6'', Str ''#6a3d9a''])"
  by code_simp

lemma style_function_handed_to:
  "handed_to ''style_function'' practical7 =
     [(Some ''folium.features.GeoJson'', ''style_function'')]"
  by code_simp

lemma handlers_practical7: "filter handles_or_raises (cell_stmts practical7) = []"
  by code_simp

lemma handlers_vector_intro: "filter handles_or_raises (cell_stmts vector_intro) = []"
  by code_simp









lemma callbacks_practical7:
  "callbacks practical7 = [(Some ''folium.features.GeoJson'', Name ''style_function'')]"
  by code_simp




lemma defined_calls_practical7: "calls_of Defined practical7 = []"
  by code_simp

lemma defined_calls_vector_intro: "calls_of Defined vector_intro = []"
  by code_simp

lemma entity_kinds_practical7:
  "entity_kinds practical7 =
     [ListOf FromLibrary, IteratorOf (TupleOf FromLibrary), ListOf (TupleOf FromLibrary),
      TupleOf Scalar, DictOf Scalar, BuiltinObject, FromCaller, FunctionObject,
      ListOf Scalar, FromLibrary, Scalar]"
  by code_simp

lemma entity_kinds_vector_intro:
  "entity_kinds vector_intro =
     [DictOf Mixed, ListOf Scalar, DictOf Scalar, ListOf (TupleOf Scalar), TupleOf Scalar,
      ListOf FromLibrary, IteratorOf (TupleOf FromLibrary), FromLibrary, BuiltinObject,
      Scalar]"
  by code_simp

lemma bindings_practical7:
  "bindings practical7 =
     [(''gpd'', FromLibrary), (''folium'', FromLibrary), (''plt'', FromLibrary),
      (''smkt'', FromLibrary), (''ff'', FromLibrary), (''ff_gj'', FromLibrary),
      (''idx'', FromLibrary), (''feature'', FromLibrary), (''marker'', FromLibrary),
      (''MarkerCluster'', FromLibrary), (''locns'', ListOf (TupleOf FromLibrary)),
      (''mc'', FromLibrary), (''HeatMap'', FromLibrary), (''hm'', FromLibrary),
      (''pd'', FromLibrary), (''imd'', FromLibrary), (''lsoa'', FromLibrary),
      (''colors'', ListOf Scalar), (''style_function'', FunctionObject),
      (''feature'', FromCaller), (''m'', FromLibrary), (''choropleth'', FromLibrary)]"
  by code_simp

lemma bindings_vector_intro:
  "bindings vector_intro =
     [(''gpd'', FromLibrary), (''pd'', FromLibrary), (''gdf'', FromLibrary),
      (''gdfSub'', FromLibrary), (''nc'', FromLibrary), (''gs'', FromLibrary),
      (''Point'', FromLibrary), (''LineString'', FromLibrary), (''Polygon'', FromLibrary),
      (''test'', FromLibrary), (''poly'', FromLibrary), (''ln'', FromLibrary),
      (''df'', FromLibrary), (''cities'', FromLibrary), (''x'', FromLibrary),
      (''y'', FromLibrary)]"
  by code_simp

lemma built_containers_practical7:
  "built_containers practical7 =
     [(ListE [Attr (Subscript (Name ''feature'') (Str ''geometry'')) ''y'',
              Attr (Subscript (Name ''feature'') (Str ''geometry'')) ''x''],
       ListOf FromLibrary),
      (Call (Name ''list'')
         [Call (Name ''zip'')
            [Attr (Attr (Name ''ff'') ''geometry'') ''y'',
             Attr (Attr (Name ''ff'') ''geometry'') ''x'']
            []]
         [],
       ListOf (TupleOf FromLibrary)),
      (Call (Name ''zip'')
         [Attr (Attr (Name ''ff'') ''geometry'') ''y'',
          Attr (Attr (Name ''ff'') ''geometry'') ''x'']
         [],
       IteratorOf (TupleOf FromLibrary)),
      (DictE [Str ''LSOA code (2011)'', Str ''Index of Multiple Deprivation (IMD) Decile'']
         [Str ''lsoa'', Str ''imd_decile''],
       DictOf Scalar),
      (TupleE [Num 15, Num 10], TupleOf Scalar),
      (ListE [Str ''#a6cee3'', Str ''#1f78b4'', Str ''#b2df8a'', Str ''#33a02c'',
              Str ''#fb9a99'', Str ''#e31a1c'', Str ''#fdbf6f'', Str ''#ff7f00'',
              Str ''#cab2d6'', Str ''#6a3d9a''],
       ListOf Scalar),
      (DictE [Str ''fillOpacity'', Str ''weight'', Str ''color'', Str ''fillColor'']
         [Flt ''0.7'', Num 0, Str ''black'',
          Subscript (Name ''colors'')
            (Minus
               (Call (Name ''int'')
                  [Subscript (Subscript (Name ''feature'') (Str ''properties''))
                     (Str ''imd_decile'')]
                  [])
               (Num 1))],
       DictOf Scalar),
      (ListE [Flt ''50.934358'', Neg (Flt ''1.399073'')], ListOf Scalar),
      (ListE [Str ''lsoa'', Str ''imd_decile''], ListOf Scalar),
      (ListE [Str ''LSOA'', Str ''IMD Decile''], ListOf Scalar)]"
  by code_simp

lemma built_containers_vector_intro:
  "built_containers vector_intro =
     [(ListE [Str ''NAME'', Str ''GEOID'', Str ''ALAND''], ListOf Scalar),
      (TupleE [Num 0, Str ''geometry''], TupleOf Scalar),
      (DictE [Str ''geometry'', Str ''var1'', Str ''var2'']
         [ListE [Call (Name ''Point'') [Num 1, Num 1] [],
                 Call (Name ''Point'') [Num 2, Num 2] []],
          ListE [Num 1, Num 2], ListE [Num 3, Num 4]],
       DictOf Mixed),
      (ListE [Call (Name ''Point'') [Num 1, Num 1] [],
              Call (Name ''Point'') [Num 2, Num 2] []],
       ListOf FromLibrary),
      (ListE [Num 1, Num 2], ListOf Scalar),
      (ListE [Num 3, Num 4], ListOf Scalar),
      (DictE [Str ''geometry''] [Str ''shape''], DictOf Scalar),
      (ListE [TupleE [Flt ''0.5'', Num 1], TupleE [Num 1, Num 2],
              TupleE [Flt ''.75'', Num 3], TupleE [Flt ''.75'', Flt ''3.5''],
              TupleE [Flt ''.5'', Num 4]],
       ListOf (TupleOf Scalar)),
      (TupleE [Flt ''0.5'', Num 1], TupleOf Scalar),
      (TupleE [Num 1, Num 2], TupleOf Scalar),
      (TupleE [Flt ''.75'', Num 3], TupleOf Scalar),
      (TupleE [Flt ''.75'', Flt ''3.5''], TupleOf Scalar),
      (TupleE [Flt ''.5'', Num 4], TupleOf Scalar),
      (Subscript
         (ListComp (Call (Name ''Point'') [Name ''x'', Name ''y''] []) [''x'', ''y'']
            (Call (Name ''zip'')
               [Attr (Name ''df'') ''longitude'', Attr (Name ''df'') ''latitude''] []))
         (Slice (Num 0) (Num 9)),
       ListOf FromLibrary),
      (ListComp (Call (Name ''Point'') [Name ''x'', Name ''y''] []) [''x'', ''y'']
         (Call (Name ''zip'')
            [Attr (Name ''df'') ''longitude'', Attr (Name ''df'') ''latitude''] []),
       ListOf FromLibrary),
      (Call (Name ''zip'')
         [Attr (Name ''df'') ''longitude'', Attr (Name ''df'') ''latitude''] [],
       IteratorOf (TupleOf FromLibrary))]"
  by code_simp

lemma own_bindings_practical7:
  "own_bindings practical7 =
     [(''locns'', ListOf (TupleOf FromLibrary)), (''colors'', ListOf Scalar),
      (''style_function'', FunctionObject), (''feature'', FromCaller)]"
  by code_simp

lemma own_bindings_vector_intro: "own_bindings vector_intro = []"
  by code_simp


section \<open>The styling function and the cell that defines it\<close>

lemma length_colors: "length colors = 10"
  by (simp add: colors_def)

lemma list_index_in_range:
  "0 \<le> i \<Longrightarrow> i < int (length xs) \<Longrightarrow> list_index xs i = Inr (xs ! nat i)"
  by (simp add: list_index_def)

lemma list_index_minus_one:
  "xs \<noteq> [] \<Longrightarrow> list_index xs (- 1) = Inr (last xs)"
  by (cases xs rule: rev_cases) (simp_all add: list_index_def nat_add_distrib)

lemma list_index_error:
  "list_index xs i = Inl e \<longleftrightarrow> e = IndexError \<and> (i < - int (length xs) \<or> int (length xs) \<le> i)"
  by (auto simp add: list_index_def)

lemma list_index_map:
  "list_index (map f xs) i = (case list_index xs i of Inl e \<Rightarrow> Inl e | Inr x \<Rightarrow> Inr (f x))"
proof -
  have "nat (int (length xs) + i) < length xs" if "- int (length xs) \<le> i" "i < 0"
    using that by linarith
  moreover have "nat i < length xs" if "0 \<le> i" "i < int (length xs)"
    using that by linarith
  ultimately show ?thesis
    by (simp add: list_index_def)
qed

lemma style_function_step:
  assumes "subscript_str feature ''properties'' = Inr props"
    and "subscript_str props ''imd_decile'' = Inr v"
    and "to_int v = Inr d"
  shows "style_function to_int feature =
     (case list_index colors (d - 1) of
        Inl e \<Rightarrow> Inl e
      | Inr c \<Rightarrow> Inr (PDict [(''fillOpacity'', PFlt ''0.7''), (''weight'', PInt 0),
                            (''color'', PStr ''black''), (''fillColor'', PStr c)]))"
  using assms by (simp add: style_function_def)

lemma lsoa_feature_properties:
  "subscript_str (lsoa_feature x) ''properties'' =
     Inr (PDict [(''lsoa'', PStr ''E01017136''), (''imd_decile'', x)])"
  by (simp add: lsoa_feature_def)

lemma lsoa_feature_decile:
  "subscript_str (PDict [(''lsoa'', PStr ''E01017136''), (''imd_decile'', x)]) ''imd_decile'' = Inr x"
  by simp

text \<open>
  The function definition of cell 44, evaluated on its statements, is the function
  \<open>style_function\<close>: the global \<^verbatim>\<open>colors\<close> holds the list assigned in the same cell.
\<close>

lemma eval_colors:
  "map_option (\<lambda>e. eval e to_int []) (last_assigned practical7 ''colors'') =
     Some (Inr (PList (map PStr colors)))"
  unfolding colors_assigned by (simp add: colors_def)

lemma eval_style_function:
  "call_fundef to_int [(''colors'', PList (map PStr colors))] (hd (fundefs practical7)) [feature] =
     raised (style_function to_int feature)"
  unfolding fundefs_practical7
  by (simp add: style_function_def raised_def list_index_map split: sum.splits)

lemma style_function_third_colour:
  "style_function int_of_number (lsoa_feature (PInt 3)) =
     Inr (PDict [(''fillOpacity'', PFlt ''0.7''), (''weight'', PInt 0),
                 (''color'', PStr ''black''), (''fillColor'', PStr ''#b2df8a'')])"
  by (simp add: style_function_def lsoa_feature_def list_index_def colors_def)

lemma style_function_index_error:
  "style_function int_of_number (lsoa_feature (PInt 11)) = Inl IndexError"
  by (simp add: style_function_def lsoa_feature_def list_index_def colors_def)

lemma style_function_errors:
  "style_function to_int feature = Inl e \<longleftrightarrow>
     subscript_str feature ''properties'' = Inl e \<or>
     (\<exists>props. subscript_str feature ''properties'' = Inr props \<and>
        (subscript_str props ''imd_decile'' = Inl e \<or>
         (\<exists>v. subscript_str props ''imd_decile'' = Inr v \<and>
            (to_int v = Inl e \<or>
             (\<exists>d. to_int v = Inr d \<and> e = IndexError \<and> (d < - 9 \<or> 10 < d))))))"
proof (cases "subscript_str feature ''properties''")
  case (Inl a)
  then show ?thesis by (simp add: style_function_def)
next
  case props: (Inr props)
  show ?thesis
  proof (cases "subscript_str props ''imd_decile''")
    case (Inl a)
    with props show ?thesis by (simp add: style_function_def)
  next
    case v: (Inr v)
    show ?thesis
    proof (cases "to_int v")
      case (Inl a)
      with props v show ?thesis by (simp add: style_function_def)
    next
      case d: (Inr d)
      have "style_function to_int feature = Inl e \<longleftrightarrow> list_index colors (d - 1) = Inl e"
        using style_function_step [of feature props v to_int d] props v d
        by (simp split: sum.splits)
      also have "\<dots> \<longleftrightarrow> e = IndexError \<and> (d < - 9 \<or> 10 < d)"
        unfolding list_index_error length_colors by auto
      finally show ?thesis using props v d by simp
    qed
  qed
qed

section \<open>The claims of the specification\<close>

subsection \<open>Delegation to the libraries\<close>

text \<open>
  Claim C1, as stated, says that no function defined in the repository goes beyond a
  direct delegation to a library call, and that the colour binning of the choropleth is
  done inside a library.  The function defined in cell 44 of Practical 7 is not a
  delegation: its body returns a dict display, and the fill colour in it is looked up
  in the notebook's own \<^verbatim>\<open>colors\<close> list; for decile 3 it is the third colour.
\<close>

theorem style_function_is_not_a_delegation:
  "hd (fundefs practical7) \<in> set (fundefs practical7)
   \<and> \<not> direct_delegation (hd (fundefs practical7))
   \<and> call_fundef int_of_number [(''colors'', PList (map PStr colors))]
        (hd (fundefs practical7)) [lsoa_feature (PInt 3)] =
      Inr (PDict [(''fillOpacity'', PFlt ''0.7''), (''weight'', PInt 0),
                  (''color'', PStr ''black''), (''fillColor'', PStr ''#b2df8a'')])"
  unfolding eval_style_function style_function_third_colour
  by (simp add: fundefs_practical7 raised_def)

text \<open>
  Claim C1, amended.  Every call the notebook code makes goes to an imported library
  function or class, to a method of a value obtained from a library, or to a Python
  builtin (\<^verbatim>\<open>list\<close>, \<^verbatim>\<open>zip\<close>, \<^verbatim>\<open>int\<close>, \<^verbatim>\<open>len\<close>, \<^verbatim>\<open>type\<close>, \<^verbatim>\<open>print\<close>): file reading,
  reprojection (\<^verbatim>\<open>to_crs\<close>), point construction, marker clustering, the heat map and
  \<^verbatim>\<open>folium.Choropleth\<close> are such calls.  The repository defines one function,
  \<open>style_function\<close>, handed to \<^verbatim>\<open>folium.features.GeoJson\<close> as the style callback of
  cell 44.  It is not a delegation: evaluated on its statements it is the colour lookup
  \<open>colors[int(decile) - 1]\<close> of the model.
\<close>

theorem operations_by_origin:
  "call_origins practical7 = [Builtin, Library]
   \<and> call_origins vector_intro = [Library, Builtin]
   \<and> calls_of Builtin practical7 = [''list'', ''zip'', ''int'']
   \<and> calls_of Builtin vector_intro = [''len'', ''print'', ''type'', ''zip'']
   \<and> library_callees practical7 =
       [''folium.TileLayer'', ''folium.map.Marker'', ''folium.Icon'',
        ''folium.plugins.MarkerCluster'', ''folium.plugins.HeatMap'', ''geopandas.read_file'',
        ''pandas.read_csv'', ''matplotlib.pyplot.show'', ''folium.features.GeoJson'',
        ''folium.Map'', ''folium.Choropleth'', ''folium.LayerControl'',
        ''folium.features.GeoJsonTooltip'']
   \<and> library_callees vector_intro =
       [''geopandas.read_file'', ''shapely.geometry.Polygon'', ''shapely.geometry.LineString'',
        ''pandas.read_csv'', ''geopandas.GeoDataFrame'', ''geopandas.points_from_xy'',
        ''shapely.geometry.Point'']
   \<and> ''to_crs'' \<in> set (calls_of Library practical7)
   \<and> map defined_name (fundefs practical7) = [''style_function'']
   \<and> fundefs vector_intro = []
   \<and> handed_to ''style_function'' practical7 =
       [(Some ''folium.features.GeoJson'', ''style_function'')]
   \<and> \<not> direct_delegation (hd (fundefs practical7))
   \<and> call_fundef to_int [(''colors'', PList (map PStr colors))]
        (hd (fundefs practical7)) [feature] =
      raised (style_function to_int feature)"
  unfolding call_origins_practical7 call_origins_vector_intro builtin_calls_practical7
    builtin_calls_vector_intro library_callees_practical7 library_callees_vector_intro
    library_calls_practical7 fundefs_vector_intro eval_style_function
    style_function_handed_to
  by (simp add: fundefs_practical7)

subsection \<open>Exceptions\<close>

text \<open>
  Claim C2, as stated, says that no exception originates in code the repository
  defines.  For a feature of decile 11 both subscripts and the conversion to an integer
  succeed, and \<open>style_function\<close> itself raises IndexError at \<open>colors[10]\<close>.
\<close>

theorem style_function_raises_index_error:
  "subscript_str (lsoa_feature (PInt 11)) ''properties'' =
     Inr (PDict [(''lsoa'', PStr ''E01017136''), (''imd_decile'', PInt 11)])
   \<and> int_of_number (PInt 11) = Inr 11
   \<and> style_function int_of_number (lsoa_feature (PInt 11)) = Inl IndexError"
  unfolding style_function_index_error lsoa_feature_properties by simp

text \<open>
  Claim C2, amended.  The notebooks contain no \<^verbatim>\<open>try\<close> and no \<^verbatim>\<open>raise\<close> statement,
  so no operation catches, transforms, suppresses or reports an exception.  An
  exception leaves \<open>style_function\<close> exactly when one of its own steps raises it, and
  it is that step's exception: a subscript of the feature (KeyError, TypeError), the
  conversion \<^verbatim>\<open>int\<close>, or the index into \<^verbatim>\<open>colors\<close>, which raises IndexError for a
  decile below \<open>-9\<close> or above \<open>10\<close>.
\<close>

theorem exceptions_surface_unhandled:
  "filter handles_or_raises (cell_stmts practical7) = []
   \<and> filter handles_or_raises (cell_stmts vector_intro) = []
   \<and> (style_function to_int feature = Inl e \<longleftrightarrow>
        subscript_str feature ''properties'' = Inl e \<or>
        (\<exists>props. subscript_str feature ''properties'' = Inr props \<and>
           (subscript_str props ''imd_decile'' = Inl e \<or>
            (\<exists>v. subscript_str props ''imd_decile'' = Inr v \<and>
               (to_int v = Inl e \<or>
                (\<exists>d. to_int v = Inr d \<and> e = IndexError \<and> (d < - 9 \<or> 10 < d)))))))"
  using style_function_errors [of to_int feature e]
  by (simp only: handlers_practical7 handlers_vector_intro simp_thms)

subsection \<open>Files written and read\<close>


text \<open>
  Claim C4, as stated, says that every input file is read through
  \<^verbatim>\<open>geopandas.read_file\<close>.  The table of deprivation deciles of Practical 7 is a CSV
  file read through \<^verbatim>\<open>pandas.read_csv\<close>.
\<close>

theorem csv_is_not_read_by_the_vector_reader:
  "Call (Attr (Name ''pd'') ''read_csv'')
      [Str ''../data/IMD2019_Index_of_Multiple_Deprivation.csv''] []
     \<in> set (file_reads practical7)
   \<and> \<not> read_by_vector_reader practical7
        (Call (Attr (Name ''pd'') ''read_csv'')
           [Str ''../data/IMD2019_Index_of_Multiple_Deprivation.csv''] [])"
  unfolding file_reads_practical7
  by (simp add: read_by_vector_reader_def library_callee_def import_table_practical7)

text \<open>
  Claim C4, amended.  Every input file is a zipped shapefile, a GeoPackage or a CSV
  file; the zipped shapefile and the GeoPackages are read through
  \<^verbatim>\<open>geopandas.read_file\<close>, the two CSV files through \<^verbatim>\<open>pandas.read_csv\<close>, and no call
  of the notebooks reads a file in any other way.
\<close>

theorem input_files_by_format:
  "list_all (read_by_format practical7) (file_reads practical7)
   \<and> list_all (read_by_format vector_intro) (file_reads vector_intro)
   \<and> map (\<lambda>c. (library_callee practical7 c, str_arg c)) (file_reads practical7) =
       [(Some ''geopandas.read_file'', ''../data/soton_smkts.gpkg''),
        (Some ''geopandas.read_file'', ''../data/soton_fastfood.gpkg''),
        (Some ''geopandas.read_file'', ''../data/soton_lsoa_distance.gpkg''),
        (Some ''pandas.read_csv'', ''../data/IMD2019_Index_of_Multiple_Deprivation.csv'')]
   \<and> map (\<lambda>c. (library_callee vector_intro c, str_arg c)) (file_reads vector_intro) =
       [(Some ''geopandas.read_file'', ''zip://../data/cb_2018_us_state_500k.zip''),
        (Some ''pandas.read_csv'', ''../data/ne_cities_10m.csv'')]"
  using read_by_format_practical7 read_by_format_vector_intro
  unfolding file_reads_practical7 file_reads_vector_intro
  by (simp add: library_callee_def import_table_practical7 import_table_vector_intro)

subsection \<open>The values the notebooks build\<close>

text \<open>
  Claim C5, as stated, says that every entity the notebook code builds is a table with
  a geometry column or a map or layer object of the mapping library.  The name
  \<^verbatim>\<open>colors\<close> of Practical 7 is bound to a plain Python list of strings, built by a
  list display of the notebook code.
\<close>

theorem colors_is_a_python_list:
  "(''colors'', ListOf Scalar) \<in> set (bindings practical7)
   \<and> ListOf Scalar \<noteq> FromLibrary"
  unfolding bindings_practical7 by simp

text \<open>
  Claim C5, amended.  Every data entity of the notebook code, that is the value of
  every expression and subexpression and every name bound by an import, an
  assignment, a loop, a comprehension, a parameter or a definition, is of one of these
  kinds: a library module, class or function or a value an external library hands over
  (tables with a geometry column, geometries, map and layer objects, and the rows,
  labels and coordinates read out of them); the argument a caller passes to
  \<open>style_function\<close> and its parts, the caller being \<^verbatim>\<open>folium.features.GeoJson\<close> alone;
  or a plain Python builtin value the notebook code builds: strings and numbers, the
  builtin functions it calls, and lists, tuples, dicts and zip iterators.  The plain
  containers are the ones listed, among them the lists bound to \<^verbatim>\<open>locns\<close> and
  \<^verbatim>\<open>colors\<close> and the style dict \<open>style_function\<close> returns.  The names that do not hold
  a library value are \<^verbatim>\<open>locns\<close>, \<^verbatim>\<open>colors\<close>, \<open>style_function\<close> and its parameter.
  The code defines one function and no class: no data structure of its own.
\<close>

theorem entities_of_the_notebooks:
  "entity_kinds practical7 =
     [ListOf FromLibrary, IteratorOf (TupleOf FromLibrary), ListOf (TupleOf FromLibrary),
      TupleOf Scalar, DictOf Scalar, BuiltinObject, FromCaller, FunctionObject,
      ListOf Scalar, FromLibrary, Scalar]
   \<and> entity_kinds vector_intro =
     [DictOf Mixed, ListOf Scalar, DictOf Scalar, ListOf (TupleOf Scalar), TupleOf Scalar,
      ListOf FromLibrary, IteratorOf (TupleOf FromLibrary), FromLibrary, BuiltinObject,
      Scalar]
   \<and> bindings practical7 =
     [(''gpd'', FromLibrary), (''folium'', FromLibrary), (''plt'', FromLibrary),
      (''smkt'', FromLibrary), (''ff'', FromLibrary), (''ff_gj'', FromLibrary),
      (''idx'', FromLibrary), (''feature'', FromLibrary), (''marker'', FromLibrary),
      (''MarkerCluster'', FromLibrary), (''locns'', ListOf (TupleOf FromLibrary)),
      (''mc'', FromLibrary), (''HeatMap'', FromLibrary), (''hm'', FromLibrary),
      (''pd'', FromLibrary), (''imd'', FromLibrary), (''lsoa'', FromLibrary),
      (''colors'', ListOf Scalar), (''style_function'', FunctionObject),
      (''feature'', FromCaller), (''m'', FromLibrary), (''choropleth'', FromLibrary)]
   \<and> bindings vector_intro =
     [(''gpd'', FromLibrary), (''pd'', FromLibrary), (''gdf'', FromLibrary),
      (''gdfSub'', FromLibrary), (''nc'', FromLibrary), (''gs'', FromLibrary),
      (''Point'', FromLibrary), (''LineString'', FromLibrary), (''Polygon'', FromLibrary),
      (''test'', FromLibrary), (''poly'', FromLibrary), (''ln'', FromLibrary),
      (''df'', FromLibrary), (''cities'', FromLibrary), (''x'', FromLibrary),
      (''y'', FromLibrary)]
   \<and> own_bindings practical7 =
     [(''locns'', ListOf (TupleOf FromLibrary)), (''colors'', ListOf Scalar),
      (''style_function'', FunctionObject), (''feature'', FromCaller)]
   \<and> own_bindings vector_intro = []
   \<and> callbacks practical7 = [(Some ''folium.features.GeoJson'', Name ''style_function'')]
   \<and> calls_of Defined practical7 = []
   \<and> map_option (\<lambda>e. eval e to_int []) (last_assigned practical7 ''colors'') =
       Some (Inr (PList (map PStr colors)))
   \<and> length colors = 10
   \<and> built_containers practical7 =
     [(ListE [Attr (Subscript (Name ''feature'') (Str ''geometry'')) ''y'',
              Attr (Subscript (Name ''feature'') (Str ''geometry'')) ''x''],
       ListOf FromLibrary),
      (Call (Name ''list'')
         [Call (Name ''zip'')
            [Attr (Attr (Name ''ff'') ''geometry'') ''y'',
             Attr (Attr (Name ''ff'') ''geometry'') ''x'']
            []]
         [],
       ListOf (TupleOf FromLibrary)),
      (Call (Name ''zip'')
         [Attr (Attr (Name ''ff'') ''geometry'') ''y'',
          Attr (Attr (Name ''ff'') ''geometry'') ''x'']
         [],
       IteratorOf (TupleOf FromLibrary)),
      (DictE [Str ''LSOA code (2011)'', Str ''Index of Multiple Deprivation (IMD) Decile'']
         [Str ''lsoa'', Str ''imd_decile''],
       DictOf Scalar),
      (TupleE [Num 15, Num 10], TupleOf Scalar),
      (ListE [Str ''#a6cee3'', Str ''#1f78b4'', Str ''#b2df8a'', Str ''#33a02c'',
              Str ''#fb9a99'', Str ''#e31a1c'', Str ''#fdbf6f'', Str ''#ff7f00'',
              Str ''#cab2d6'', Str ''#6a3d9a''],
       ListOf Scalar),
      (DictE [Str ''fillOpacity'', Str ''weight'', Str ''color'', Str ''fillColor'']
         [Flt ''0.7'', Num 0, Str ''black'',
          Subscript (Name ''colors'')
            (Minus
               (Call (Name ''int'')
                  [Subscript (Subscript (Name ''feature'') (Str ''properties''))
                     (Str ''imd_decile'')]
                  [])
               (Num 1))],
       DictOf Scalar),
      (ListE [Flt ''50.934358'', Neg (Flt ''1.399073'')], ListOf Scalar),
      (ListE [Str ''lsoa'', Str ''imd_decile''], ListOf Scalar),
      (ListE [Str ''LSOA'', Str ''IMD Decile''], ListOf Scalar)]
   \<and> built_containers vector_intro =
     [(ListE [Str ''NAME'', Str ''GEOID'', Str ''ALAND''], ListOf Scalar),
      (TupleE [Num 0, Str ''geometry''], TupleOf Scalar),
      (DictE [Str ''geometry'', Str ''var1'', Str ''var2'']
         [ListE [Call (Name ''Point'') [Num 1, Num 1] [],
                 Call (Name ''Point'') [Num 2, Num 2] []],
          ListE [Num 1, Num 2], ListE [Num 3, Num 4]],
       DictOf Mixed),
      (ListE [Call (Name ''Point'') [Num 1, Num 1] [],
              Call (Name ''Point'') [Num 2, Num 2] []],
       ListOf FromLibrary),
      (ListE [Num 1, Num 2], ListOf Scalar),
      (ListE [Num 3, Num 4], ListOf Scalar),
      (DictE [Str ''geometry''] [Str ''shape''], DictOf Scalar),
      (ListE [TupleE [Flt ''0.5'', Num 1], TupleE [Num 1, Num 2],
              TupleE [Flt ''.75'', Num 3], TupleE [Flt ''.75'', Flt ''3.5''],
              TupleE [Flt ''.5'', Num 4]],
       ListOf (TupleOf Scalar)),
      (TupleE [Flt ''0.5'', Num 1], TupleOf Scalar),
      (TupleE [Num 1, Num 2], TupleOf Scalar),
      (TupleE [Flt ''.75'', Num 3], TupleOf Scalar),
      (TupleE [Flt ''.75'', Flt ''3.5''], TupleOf Scalar),
      (TupleE [Flt ''.5'', Num 4], TupleOf Scalar),
      (Subscript
         (ListComp (Call (Name ''Point'') [Name ''x'', Name ''y''] []) [''x'', ''y'']
            (Call (Name ''zip'')
               [Attr (Name ''df'') ''longitude'', Attr (Name ''df'') ''latitude''] []))
         (Slice (Num 0) (Num 9)),
       ListOf FromLibrary),
      (ListComp (Call (Name ''Point'') [Name ''x'', Name ''y''] []) [''x'', ''y'']
         (Call (Name ''zip'')
            [Attr (Name ''df'') ''longitude'', Attr (Name ''df'') ''latitude''] []),
       ListOf FromLibrary),
      (Call (Name ''zip'')
         [Attr (Name ''df'') ''longitude'', Attr (Name ''df'') ''latitude''] [],
       IteratorOf (TupleOf FromLibrary))]"
  by (intro conjI entity_kinds_practical7 entity_kinds_vector_intro bindings_practical7
      bindings_vector_intro own_bindings_practical7 own_bindings_vector_intro
      callbacks_practical7 defined_calls_practical7 eval_colors length_colors
      built_containers_practical7 built_containers_vector_intro)

subsection \<open>Concurrency and callbacks\<close>



subsection \<open>The colour of a decile\<close>

text \<open>
  Claim C8.  For a feature whose \<^verbatim>\<open>imd_decile\<close> property converts to an integer \<open>d\<close>:
  when \<open>1 \<le> d \<le> 10\<close> the index \<open>d - 1\<close> is inside the ten-element \<open>colors\<close> list
  and \<open>style_function\<close> returns, without raising, the style dict whose \<^verbatim>\<open>fillColor\<close>
  is \<open>colors[d - 1]\<close>; when \<open>d = 0\<close> it does not raise either, and the index \<open>-1\<close>
  selects the last colour of the list, \<^verbatim>\<open>#6a3d9a\<close>.
\<close>

theorem style_function_decile:
  assumes "subscript_str feature ''properties'' = Inr props"
    and "subscript_str props ''imd_decile'' = Inr v"
    and "to_int v = Inr d"
  shows "(1 \<le> d \<and> d \<le> 10 \<longrightarrow>
            nat (d - 1) < length colors \<and>
            style_function to_int feature =
              Inr (PDict [(''fillOpacity'', PFlt ''0.7''), (''weight'', PInt 0),
                          (''color'', PStr ''black''),
                          (''fillColor'', PStr (colors ! nat (d - 1)))]))
       \<and> (d = 0 \<longrightarrow>
            last colors = ''#6a3d9a'' \<and>
            style_function to_int feature =
              Inr (PDict [(''fillOpacity'', PFlt ''0.7''), (''weight'', PInt 0),
                          (''color'', PStr ''black''),
                          (''fillColor'', PStr (last colors))]))"
proof (intro conjI impI)
  assume d: "1 \<le> d \<and> d \<le> 10"
  then show "nat (d - 1) < length colors"
    unfolding length_colors by arith
  from d have "list_index colors (d - 1) = Inr (colors ! nat (d - 1))"
    by (intro list_index_in_range) (simp_all add: length_colors)
  then show "style_function to_int feature =
      Inr (PDict [(''fillOpacity'', PFlt ''0.7''), (''weight'', PInt 0),
                  (''color'', PStr ''black''),
                  (''fillColor'', PStr (colors ! nat (d - 1)))])"
    using style_function_step [of feature props v to_int d] assms by simp
next
  assume "d = 0"
  show "last colors = ''#6a3d9a''"
    by (simp add: colors_def)
next
  assume d: "d = 0"
  have "colors \<noteq> []"
    using length_colors by auto
  then have "list_index colors (d - 1) = Inr (last colors)"
    using d by (simp add: list_index_minus_one)
  then show "style_function to_int feature =
      Inr (PDict [(''fillOpacity'', PFlt ''0.7''), (''weight'', PInt 0),
                  (''color'', PStr ''black''),
                  (''fillColor'', PStr (last colors))])"
    using style_function_step [of feature props v to_int d] assms by simp
qed

text \<open>The theorem at decile 3 (third colour) and at decile 0 (last colour).\<close>

theorem style_function_decile_witness:
  "style_function int_of_number (lsoa_feature (PInt 3)) =
     Inr (PDict [(''fillOpacity'', PFlt ''0.7''), (''weight'', PInt 0),
                 (''color'', PStr ''black''), (''fillColor'', PStr ''#b2df8a'')])
   \<and> style_function int_of_number (lsoa_feature (PInt 0)) =
     Inr (PDict [(''fillOpacity'', PFlt ''0.7''), (''weight'', PInt 0),
                 (''color'', PStr ''black''), (''fillColor'', PStr ''#6a3d9a'')])"
proof -
  have p: "subscript_str (lsoa_feature x) ''properties'' =
             Inr (PDict [(''lsoa'', PStr ''E01017136''), (''imd_decile'', x)])" for x
    by (simp add: lsoa_feature_def)
  have q: "subscript_str (PDict [(''lsoa'', PStr ''E01017136''), (''imd_decile'', x)]) ''imd_decile'' = Inr x" for x
    by simp
  have c3: "colors ! nat (3 - 1) = ''#b2df8a''"
    by (simp add: colors_def)
  show ?thesis
    using style_function_decile [OF p q, of int_of_number "PInt 3" 3]
      style_function_decile [OF p q, of int_of_number "PInt 0" 0] c3
    by simp
qed

end
